theory Spec2Isabelle
  imports Main "HOL-Library.Char_ord" "HOL-Library.List_Lexorder"
begin

section \<open>Configuration trees (xml-js compact form)\<close>

text \<open>
  A settings document arrives as the compact JSON that xml-js produces: every element
  is an object with an optional \<open>_attributes\<close> object and, per child element name, either
  one object or an array of objects. Attribute values are strings. The translators read
  the attributes \<open>key\<close>, \<open>type\<close> and \<open>value\<close> and the children \<open>entry\<close> and \<open>config\<close>.
  Strings are lists of 8-bit characters: a character stands for the UTF-16 code unit of
  the same number, so the model speaks of text whose code units are below 256.
\<close>

datatype attributes =
  Attributes (attr_key: "string option") (attr_type: "string option") (attr_value: "string option")

datatype entry = Entry (entry_attributes: "attributes option")

text \<open>A property that is missing, one object, or an array of objects.\<close>

datatype 'a slot = Absent | Single 'a | Many "'a list"

datatype config =
  Config (cfg_attributes: "attributes option") (cfg_entry: "entry slot") (cfg_config: "config slot")

text \<open>\<open>!x\<close> on a property: only a missing property is falsy (objects and arrays are truthy).\<close>

fun present :: "'a slot \<Rightarrow> bool" where
  "present Absent = False"
| "present (Single x) = True"
| "present (Many xs) = True"

text \<open>\<open>Array.isArray(x) ? x : [x]\<close>, for a property that is present.\<close>

fun as_array :: "'a slot \<Rightarrow> 'a list" where
  "as_array Absent = []"
| "as_array (Single x) = [x]"
| "as_array (Many xs) = xs"

section \<open>JavaScript values and faults\<close>

text \<open>
  What \<open>getEntryValue\<close> can return: \<open>null\<close>, a boolean (for entries typed \<open>xboolean\<close>)
  or a string. A method call on a value that has no such method raises a TypeError,
  which no translator catches.
\<close>

datatype jsval = JNull | JBool bool | JStr string

datatype error = TypeError

fun truthy :: "jsval \<Rightarrow> bool" where
  "truthy JNull = False"
| "truthy (JBool b) = b"
| "truthy (JStr s) = (s \<noteq> [])"

text \<open>String conversion inside a template literal.\<close>

fun to_string :: "jsval \<Rightarrow> string" where
  "to_string JNull = ''null''"
| "to_string (JBool b) = (if b then ''true'' else ''false'')"
| "to_string (JStr s) = s"

section \<open>String helpers\<close>

text \<open>\<open>s.replace(/c/g, r)\<close> for a one-character pattern and a replacement without \<open>$\<close>.\<close>

definition replace_all :: "char \<Rightarrow> string \<Rightarrow> string \<Rightarrow> string" where
  "replace_all c r s = concat (map (\<lambda>x. if x = c then r else [x]) s)"

text \<open>\<open>v.replace(/c/g, r)\<close> on a value: only strings have the method.\<close>

fun js_replace :: "char \<Rightarrow> string \<Rightarrow> jsval \<Rightarrow> error + string" where
  "js_replace c r (JStr s) = Inr (replace_all c r s)"
| "js_replace c r v = Inl TypeError"

text \<open>Identifier quoting: \<open>`"${s.replace(/"/g, '""')}"`\<close>.\<close>

definition quote_ident :: "string \<Rightarrow> string" where
  "quote_ident s = ''\"'' @ replace_all (CHR ''\"'') ''\"\"'' s @ ''\"''"

text \<open>\<open>parts.join(sep)\<close>.\<close>

fun join :: "string \<Rightarrow> string list \<Rightarrow> string" where
  "join sep [] = []"
| "join sep [x] = x"
| "join sep (x # y # ys) = x @ sep @ join sep (y # ys)"

section \<open>Accessors (src/common)\<close>

text \<open>
  \<open>nodes.find((node) => node._attributes && node._attributes.key === key)\<close>, shared by
  \<open>findConfigByKey\<close> and \<open>getEntryValue\<close>; \<open>findConfigByKey\<close> is also called on entries.
\<close>

definition has_key :: "attributes option \<Rightarrow> string \<Rightarrow> bool" where
  "has_key a k = (case a of None \<Rightarrow> False | Some at \<Rightarrow> attr_key at = Some k)"

definition find_by_key :: "('a \<Rightarrow> attributes option) \<Rightarrow> 'a slot \<Rightarrow> string \<Rightarrow> 'a option" where
  "find_by_key attrs p k =
     (if \<not> present p then None else List.find (\<lambda>n. has_key (attrs n) k) (as_array p))"

definition findConfigByKey :: "config slot \<Rightarrow> string \<Rightarrow> config option" where
  "findConfigByKey cfg k = find_by_key cfg_attributes cfg k"

definition findEntryByKey :: "entry slot \<Rightarrow> string \<Rightarrow> entry option" where
  "findEntryByKey ent k = find_by_key entry_attributes ent k"

definition getEntryValue :: "entry slot \<Rightarrow> string \<Rightarrow> jsval" where
  "getEntryValue entryProp k =
     (case findEntryByKey entryProp k of
        None \<Rightarrow> JNull
      | Some e \<Rightarrow>
          (case entry_attributes e of
             None \<Rightarrow> JNull
           | Some a \<Rightarrow>
               if attr_type a = Some ''xboolean'' then JBool (attr_value a = Some ''true'')
               else (case attr_value a of
                       None \<Rightarrow> JNull
                     | Some v \<Rightarrow> if v = [] then JNull else JStr v)))"

text \<open>\<open>getEntryValue(node?.entry, k)\<close> and \<open>findConfigByKey(node?.config, k)\<close>.\<close>

definition opt_entry :: "config option \<Rightarrow> entry slot" where
  "opt_entry n = (case n of None \<Rightarrow> Absent | Some c \<Rightarrow> cfg_entry c)"

definition opt_config :: "config option \<Rightarrow> config slot" where
  "opt_config n = (case n of None \<Rightarrow> Absent | Some c \<Rightarrow> cfg_config c)"

section \<open>Row Filter: operator table and wildcards\<close>

definition mapKnimeOperatorToSQL :: "string \<Rightarrow> string" where
  "mapKnimeOperatorToSQL knimeOperator =
     (if knimeOperator = ''EQ'' then ''=''
      else if knimeOperator = ''NEQ'' then ''!=''
      else if knimeOperator = ''LT'' then ''<''
      else if knimeOperator = ''LE'' then ''<=''
      else if knimeOperator = ''GT'' then ''>''
      else if knimeOperator = ''GE'' then ''>=''
      else if knimeOperator = ''LIKE'' then ''LIKE''
      else if knimeOperator = ''REGEX'' then ''REGEXP''
      else if knimeOperator = ''IS_MISSING'' then ''IS NULL''
      else if knimeOperator = ''IS_NOT_MISSING'' then ''IS NOT NULL''
      else ''='')"

text \<open>The table of the specification, as pairs (KNIME operator, SQL operator).\<close>

definition spec_operator_table :: "(string \<times> string) list" where
  "spec_operator_table =
     [(''EQ'', ''=''), (''NEQ'', ''!=''), (''LT'', ''<''), (''LE'', ''<=''), (''GT'', ''>''),
      (''GE'', ''>=''), (''LIKE'', ''LIKE''), (''REGEX'', ''REGEXP''),
      (''IS_MISSING'', ''IS NULL''), (''IS_NOT_MISSING'', ''IS NOT NULL'')]"

text \<open>
  \<open>translateKnimeWildcardToSQL\<close>: a non-string pattern gives the empty string; otherwise
  \<open>%\<close> and \<open>_\<close> get a backslash, then \<open>*\<close> becomes \<open>%\<close> and \<open>?\<close> becomes \<open>_\<close>.
\<close>

fun translateKnimeWildcardToSQL :: "jsval \<Rightarrow> string" where
  "translateKnimeWildcardToSQL (JStr knimePattern) =
     (let sqlPattern = replace_all (CHR ''_'') [CHR 0x5C, CHR ''_'']
                         (replace_all (CHR ''%'') [CHR 0x5C, CHR ''%''] knimePattern)
      in replace_all (CHR ''?'') ''_'' (replace_all (CHR ''*'') ''%'' sqlPattern))"
| "translateKnimeWildcardToSQL v = []"

section \<open>JavaScript built-ins used by the Row Filter translator\<close>

text \<open>\<open>s.includes(pat)\<close> on strings.\<close>

definition starts_with :: "string \<Rightarrow> string \<Rightarrow> bool" where
  "starts_with s pat = (take (length pat) s = pat)"

fun str_includes :: "string \<Rightarrow> string \<Rightarrow> bool" where
  "str_includes [] pat = (pat = [])"
| "str_includes (c # cs) pat = (starts_with (c # cs) pat \<or> str_includes cs pat)"

text \<open>\<open>v?.includes(pat)\<close>: \<open>null\<close> short-circuits to a falsy result, a boolean has no such method.\<close>

fun js_includes :: "jsval \<Rightarrow> string \<Rightarrow> error + bool" where
  "js_includes JNull pat = Inr False"
| "js_includes (JBool b) pat = Inl TypeError"
| "js_includes (JStr s) pat = Inr (str_includes s pat)"

text \<open>
  \<open>!isNaN(Number(v))\<close> decides on the syntax of the text alone: after trimming white space,
  the empty string, a signed decimal literal (with optional fraction and exponent),
  \<open>Infinity\<close> with optional sign, and the unsigned literals \<open>0x\<close>, \<open>0o\<close>, \<open>0b\<close> are numbers.
  \<open>Number(true)\<close> and \<open>Number(false)\<close> are numbers. The white space that \<open>Number\<close>, \<open>parseInt\<close>
  and \<open>trim\<close> strip is, among the code units below 256: tab, line feed, vertical tab, form
  feed, carriage return, space and the no-break space U+00A0.
\<close>

definition is_space :: "char \<Rightarrow> bool" where
  "is_space c =
     (c \<in> {CHR 0x09, CHR 0x0A, CHR 0x0B, CHR 0x0C, CHR 0x0D, CHR 0x20, CHR 0xA0})"

definition trim :: "string \<Rightarrow> string" where
  "trim s = rev (dropWhile is_space (rev (dropWhile is_space s)))"

definition is_digit :: "char \<Rightarrow> bool" where
  "is_digit c = (CHR ''0'' \<le> c \<and> c \<le> CHR ''9'')"

definition is_hex_digit :: "char \<Rightarrow> bool" where
  "is_hex_digit c =
     (is_digit c \<or> (CHR ''a'' \<le> c \<and> c \<le> CHR ''f'') \<or> (CHR ''A'' \<le> c \<and> c \<le> CHR ''F''))"

definition strip_sign :: "string \<Rightarrow> string" where
  "strip_sign s = (case s of [] \<Rightarrow> [] | c # cs \<Rightarrow> if c = CHR ''+'' \<or> c = CHR ''-'' then cs else s)"

definition all_digits :: "string \<Rightarrow> bool" where
  "all_digits s = (s \<noteq> [] \<and> list_all is_digit s)"

definition exponent_opt :: "string \<Rightarrow> bool" where
  "exponent_opt s =
     (case s of [] \<Rightarrow> True
      | c # cs \<Rightarrow> (c = CHR ''e'' \<or> c = CHR ''E'') \<and> all_digits (strip_sign cs))"

definition unsigned_decimal :: "string \<Rightarrow> bool" where
  "unsigned_decimal s =
     (let ds = takeWhile is_digit s; r = dropWhile is_digit s
      in case r of
           [] \<Rightarrow> ds \<noteq> []
         | c # cs \<Rightarrow>
             if c = CHR ''.''
             then (ds \<noteq> [] \<or> takeWhile is_digit cs \<noteq> []) \<and> exponent_opt (dropWhile is_digit cs)
             else ds \<noteq> [] \<and> exponent_opt r)"

definition non_decimal :: "string \<Rightarrow> bool" where
  "non_decimal s =
     (case s of
        z # x # ds \<Rightarrow>
          z = CHR ''0'' \<and> ds \<noteq> [] \<and>
          (if x = CHR ''x'' \<or> x = CHR ''X'' then list_all is_hex_digit ds
           else if x = CHR ''o'' \<or> x = CHR ''O'' then list_all (\<lambda>c. CHR ''0'' \<le> c \<and> c \<le> CHR ''7'') ds
           else if x = CHR ''b'' \<or> x = CHR ''B'' then list_all (\<lambda>c. c = CHR ''0'' \<or> c = CHR ''1'') ds
           else False)
      | _ \<Rightarrow> False)"

definition numeric_string :: "string \<Rightarrow> bool" where
  "numeric_string s =
     (let t = trim s
      in t = [] \<or> non_decimal t \<or> strip_sign t = ''Infinity'' \<or> unsigned_decimal (strip_sign t))"

fun js_numeric :: "jsval \<Rightarrow> bool" where
  "js_numeric JNull = True"
| "js_numeric (JBool b) = True"
| "js_numeric (JStr s) = numeric_string s"

text \<open>String literal quoting: \<open>`'${v.replace(/'/g, "''")}'`\<close>.\<close>

definition quote_literal :: "string \<Rightarrow> string" where
  "quote_literal s = [CHR 0x27] @ replace_all (CHR 0x27) [CHR 0x27, CHR 0x27] s @ [CHR 0x27]"

section \<open>Row Filter translator\<close>

definition ROW_FILTER_FACTORY :: string where
  "ROW_FILTER_FACTORY = ''org.knime.base.node.preproc.filter.row3.RowFilterNodeFactory''"

text \<open>\<open>operatorEntry._attributes.value\<close>.\<close>

definition entry_value :: "entry \<Rightarrow> error + string option" where
  "entry_value e = (case entry_attributes e of None \<Rightarrow> Inl TypeError | Some a \<Rightarrow> Inr (attr_value a))"

text \<open>\<open>`"${columnName.replace(/"/g, '""')}"`\<close>, where the column name is whatever the accessor gave.\<close>

definition quote_value :: "jsval \<Rightarrow> error + string" where
  "quote_value v =
     (case js_replace (CHR ''\"'') ''\"\"'' v of
        Inl e \<Rightarrow> Inl e
      | Inr s \<Rightarrow> Inr (''\"'' @ s @ ''\"''))"

text \<open>
  The second half of the predicate callback, from the lookup of the value configuration
  under key \<open>0\<close> to the returned condition. \<open>None\<close> is the \<open>null\<close> of a skipped predicate.
\<close>

definition rf_value_condition :: "jsval \<Rightarrow> string \<Rightarrow> config slot \<Rightarrow> error + string option" where
  "rf_value_condition columnName sqlOperator valuesConfig =
     (case findConfigByKey valuesConfig ''0'' of
        None \<Rightarrow> Inr None
      | Some singleValueConfig \<Rightarrow>
          if \<not> present (cfg_entry singleValueConfig) \<or> \<not> present (cfg_config singleValueConfig)
          then Inr None
          else
            let v = getEntryValue (cfg_entry singleValueConfig) ''value'';
                typeIdentifierConfig = findConfigByKey (cfg_config singleValueConfig) ''typeIdentifier'';
                isNull = getEntryValue (opt_entry typeIdentifierConfig) ''is_null'';
                cellClass = getEntryValue (opt_entry typeIdentifierConfig) ''cell_class''
            in if isNull = JBool True
               then (case quote_value columnName of
                       Inl e \<Rightarrow> Inl e
                     | Inr quotedColumnName \<Rightarrow> Inr (Some (quotedColumnName @ '' IS NULL'')))
               else if v = JNull then Inr None
               else
                 (case quote_value columnName of
                    Inl e \<Rightarrow> Inl e
                  | Inr quotedColumnName \<Rightarrow>
                 (case js_includes cellClass ''StringCell'' of
                    Inl e \<Rightarrow> Inl e
                  | Inr isStringType \<Rightarrow>
                 let isNumeric = js_numeric v;
                     needsQuotes = (isStringType \<or> \<not> isNumeric)
                 in
                 (case (if sqlOperator = ''LIKE''
                        then Inr (quote_literal (translateKnimeWildcardToSQL v))
                        else if sqlOperator = ''REGEXP'' \<or> needsQuotes
                        then (case js_replace (CHR 0x27) [CHR 0x27, CHR 0x27] v of
                                Inl e \<Rightarrow> Inl e
                              | Inr s \<Rightarrow> Inr ([CHR 0x27] @ s @ [CHR 0x27]))
                        else Inr (to_string v)) of
                    Inl e \<Rightarrow> Inl e
                  | Inr sqlValue \<Rightarrow>
                 let caseSensitiveConfig =
                       findConfigByKey (cfg_config singleValueConfig) ''stringCaseMatching'';
                     caseSensitive =
                       (getEntryValue (opt_entry caseSensitiveConfig) ''caseMatching''
                          = JStr ''CASESENSITIVE'');
                     condition =
                       (if needsQuotes \<and> \<not> caseSensitive \<and>
                           (sqlOperator = ''='' \<or> sqlOperator = ''!='' \<or>
                            sqlOperator = ''LIKE'' \<or> sqlOperator = ''REGEXP'')
                        then ''LOWER('' @ quotedColumnName @ '') '' @ sqlOperator @
                             '' LOWER('' @ sqlValue @ '')''
                        else quotedColumnName @ '' '' @ sqlOperator @ '' '' @ sqlValue)
                 in if sqlOperator = ''LIKE''
                    then (case js_replace (CHR ''*'') ''%'' v of
                            Inl e \<Rightarrow> Inl e
                          | Inr w \<Rightarrow>
                              if translateKnimeWildcardToSQL v \<noteq> replace_all (CHR ''?'') ''_'' w
                              then Inr (Some (condition @ '' ESCAPE '' @ [CHR 0x27, CHR 0x5C, CHR 0x27]))
                              else Inr (Some condition))
                    else Inr (Some condition)))))"

text \<open>The callback of \<open>predicateConfigs.map\<close>.\<close>

definition rf_predicate :: "config \<Rightarrow> error + string option" where
  "rf_predicate predConfig =
     (if \<not> present (cfg_config predConfig) then Inr None
      else
        case (findConfigByKey (cfg_config predConfig) ''column'',
              findEntryByKey (cfg_entry predConfig) ''operator'',
              findConfigByKey (cfg_config predConfig) ''predicateValues'') of
          (Some columnNode, Some operatorEntry, Some predicateValuesNode) \<Rightarrow>
            if \<not> present (cfg_config predicateValuesNode) then Inr None
            else
              let columnName = getEntryValue (cfg_entry columnNode) ''selected''
              in (case entry_value operatorEntry of
                    Inl e \<Rightarrow> Inl e
                  | Inr knimeOperator \<Rightarrow>
                      (case (knimeOperator,
                             findConfigByKey (cfg_config predicateValuesNode) ''values'') of
                         (Some op, Some valuesNode) \<Rightarrow>
                           if \<not> truthy columnName \<or> op = [] \<or> \<not> present (cfg_config valuesNode)
                           then Inr None
                           else
                             let sqlOperator = mapKnimeOperatorToSQL op
                             in if sqlOperator = ''IS NULL'' \<or> sqlOperator = ''IS NOT NULL''
                                then (case quote_value columnName of
                                        Inl e \<Rightarrow> Inl e
                                      | Inr quotedColumnName \<Rightarrow>
                                          Inr (Some (quotedColumnName @ '' '' @ sqlOperator)))
                                else rf_value_condition columnName sqlOperator (cfg_config valuesNode)
                       | _ \<Rightarrow> Inr None))
        | _ \<Rightarrow> Inr None)"

text \<open>
  \<open>predicateConfigs.map(...).filter((condition) => condition !== null)\<close>: the callback runs
  on the predicates from left to right, a fault in one of them leaves the translator.
\<close>

fun rf_conditions :: "config list \<Rightarrow> error + string list" where
  "rf_conditions [] = Inr []"
| "rf_conditions (p # ps) =
     (case rf_predicate p of
        Inl e \<Rightarrow> Inl e
      | Inr c \<Rightarrow>
          (case rf_conditions ps of
             Inl e \<Rightarrow> Inl e
           | Inr cs \<Rightarrow> Inr (case c of None \<Rightarrow> cs | Some x \<Rightarrow> x # cs)))"

text \<open>The output when no predicate gave a condition, and the diagnostic of step 3.\<close>

definition rf_degraded :: "string \<Rightarrow> string" where
  "rf_degraded previousNodeName =
     ''SELECT * FROM '' @ quote_ident previousNodeName @
     ''; -- Warning: No valid filter conditions generated or applied''"

definition rf_missing_parameters :: string where
  "rf_missing_parameters =
     ''Error: Essential filtering parameters (outputMode, matchCriteria, predicates) not found.''"

text \<open>
  \<open>convertRowFilterNodeToSQL(nodeConfig, previousNodeName)\<close>. The second parameter has no
  default: \<open>None\<close> is a call that leaves it out (\<open>undefined\<close>), and \<open>replace\<close> on it is a
  TypeError.
\<close>

definition convertRowFilterNodeToSQL :: "config \<Rightarrow> string option \<Rightarrow> error + string" where
  "convertRowFilterNodeToSQL nodeConfig previousNodeName =
     (let factory = getEntryValue (cfg_entry nodeConfig) ''factory''
      in if factory \<noteq> JStr ROW_FILTER_FACTORY
         then Inr (''Error: Expected Row Filter node factory ('' @ ROW_FILTER_FACTORY @
                   ''), but got '' @ (if truthy factory then to_string factory else ''N/A'') @ ''.'')
         else
           (case findConfigByKey (cfg_config nodeConfig) ''model'' of
              None \<Rightarrow> Inr ''Error: Model configuration not found.''
            | Some modelNode \<Rightarrow>
                if \<not> present (cfg_config modelNode)
                then Inr ''Error: Model configuration not found.''
                else
                  let outputMode = getEntryValue (cfg_entry modelNode) ''outputMode'';
                      matchCriteria = getEntryValue (cfg_entry modelNode) ''matchCriteria''
                  in (case findConfigByKey (cfg_config modelNode) ''predicates'' of
                        None \<Rightarrow> Inr rf_missing_parameters
                      | Some predicatesNode \<Rightarrow>
                          if \<not> truthy outputMode \<or> \<not> truthy matchCriteria \<or>
                             \<not> present (cfg_config predicatesNode)
                          then Inr rf_missing_parameters
                          else
                            (case rf_conditions (as_array (cfg_config predicatesNode)) of
                               Inl e \<Rightarrow> Inl e
                             | Inr conditions \<Rightarrow>
                                 if conditions = []
                                 then (case previousNodeName of
                                         None \<Rightarrow> Inl TypeError
                                       | Some prev \<Rightarrow> Inr (rf_degraded prev))
                                 else
                                   let combinedConditions =
                                         join ('' '' @ to_string matchCriteria @ '' '') conditions;
                                       whereClause =
                                         (if outputMode = JStr ''NON_MATCHING''
                                          then ''NOT ('' @ combinedConditions @ '')''
                                          else combinedConditions)
                                   in (case previousNodeName of
                                         None \<Rightarrow> Inl TypeError
                                       | Some prev \<Rightarrow>
                                           Inr (''SELECT * FROM '' @ quote_ident prev @
                                                '' WHERE '' @ whereClause @ '';''))))))"

section \<open>GroupBy translator\<close>

definition GROUPBY_FACTORY :: string where
  "GROUPBY_FACTORY = ''org.knime.base.node.preproc.groupby.GroupByNodeFactory''"

text \<open>\<open>mapKnimeAggregationToSQL\<close>; \<open>None\<close> is the \<open>null\<close> of an unsupported method.\<close>

definition mapKnimeAggregationToSQL :: "string \<Rightarrow> string option" where
  "mapKnimeAggregationToSQL knimeMethod =
     (if knimeMethod = ''Sum'' then Some ''SUM''
      else if knimeMethod = ''Count'' then Some ''COUNT''
      else if knimeMethod = ''Mean'' \<or> knimeMethod = ''Average'' then Some ''AVG''
      else if knimeMethod = ''Minimum'' then Some ''MIN''
      else if knimeMethod = ''Maximum'' then Some ''MAX''
      else if knimeMethod = ''StandardDeviation'' then Some ''STDDEV_SAMP''
      else if knimeMethod = ''Variance'' then Some ''VAR_SAMP''
      else if knimeMethod = ''Median'' then None
      else if knimeMethod = ''Concatenate'' \<or> knimeMethod = ''List'' then Some ''LISTAGG''
      else if knimeMethod = ''First'' then Some ''MIN''
      else if knimeMethod = ''Last'' then Some ''MAX''
      else if knimeMethod = ''Unique count'' then Some ''COUNT(DISTINCT $$col$$)''
      else if knimeMethod = ''Missing value count''
      then Some ''SUM(CASE WHEN $$col$$ IS NULL THEN 1 ELSE 0 END)''
      else None)"

text \<open>
  The replacement text of \<open>String.prototype.replace\<close> is a pattern: \<open>$$\<close> stands for one
  dollar sign, \<open>$&\<close> for the matched text, \<open>$`\<close> and \<open>$'\<close> for the text before and after the
  match. The regular expression has no groups, so every other \<open>$\<close> stays as it is.
\<close>

fun getSubstitution :: "string \<Rightarrow> string \<Rightarrow> string \<Rightarrow> string \<Rightarrow> string" where
  "getSubstitution matched passed after [] = []"
| "getSubstitution matched passed after [c] = [c]"
| "getSubstitution matched passed after (c # d # r) =
     (if c = CHR ''$'' \<and> d = CHR ''$'' then CHR ''$'' # getSubstitution matched passed after r
      else if c = CHR ''$'' \<and> d = CHR ''&'' then matched @ getSubstitution matched passed after r
      else if c = CHR ''$'' \<and> d = CHR 0x60 then passed @ getSubstitution matched passed after r
      else if c = CHR ''$'' \<and> d = CHR 0x27 then after @ getSubstitution matched passed after r
      else c # getSubstitution matched passed after (d # r))"

text \<open>\<open>template.replace(/\$\$col\$\$/g, replacement)\<close>; the second argument is the text already passed.\<close>

fun replace_col :: "string \<Rightarrow> string \<Rightarrow> string \<Rightarrow> string" where
  "replace_col replacement passed [] = []"
| "replace_col replacement passed (c # cs) =
     (if starts_with (c # cs) ''$$col$$''
      then getSubstitution ''$$col$$'' passed (drop 6 cs) replacement @
           replace_col replacement (passed @ ''$$col$$'') (drop 6 cs)
      else c # replace_col replacement (passed @ [c]) cs)"

text \<open>\<open>s.replace(/[^a-zA-Z0-9_]/g, "_")\<close>.\<close>

definition alias_char :: "char \<Rightarrow> bool" where
  "alias_char c =
     ((CHR ''a'' \<le> c \<and> c \<le> CHR ''z'') \<or> (CHR ''A'' \<le> c \<and> c \<le> CHR ''Z'') \<or>
      (CHR ''0'' \<le> c \<and> c \<le> CHR ''9'') \<or> c = CHR ''_'')"

definition clean_alias :: "string \<Rightarrow> string" where
  "clean_alias s = map (\<lambda>c. if alias_char c then c else CHR ''_'') s"

text \<open>\<open>getEntryValue(...) || fallback\<close>.\<close>

definition or_default :: "jsval \<Rightarrow> string \<Rightarrow> jsval" where
  "or_default v d = (if truthy v then v else JStr d)"

text \<open>
  The body of the aggregation loop for one pair (column name, method): \<open>None\<close> when the
  method has no SQL counterpart, otherwise the text pushed onto \<open>aggregations\<close>.
\<close>

definition gb_aggregation :: "jsval \<Rightarrow> jsval \<Rightarrow> string \<Rightarrow> string \<Rightarrow> error + string option" where
  "gb_aggregation columnNamePolicy valueDelimiter colName knimeMethod =
     (case mapKnimeAggregationToSQL knimeMethod of
        None \<Rightarrow> Inr None
      | Some sqlFunctionTemplate \<Rightarrow>
          let quotedColName = quote_ident colName
          in (case (if str_includes sqlFunctionTemplate ''$$col$$''
                    then Inr (replace_col quotedColName [] sqlFunctionTemplate)
                    else if knimeMethod = ''Count'' then Inr (''COUNT('' @ quotedColName @ '')'')
                    else if knimeMethod = ''List'' \<or> knimeMethod = ''Concatenate''
                    then (case js_replace (CHR 0x27) [CHR 0x27, CHR 0x27] valueDelimiter of
                            Inl e \<Rightarrow> Inl e
                          | Inr d \<Rightarrow>
                              Inr (sqlFunctionTemplate @ ''('' @ quotedColName @ '', '' @
                                   [CHR 0x27] @ d @ [CHR 0x27] @ '')''))
                    else Inr (sqlFunctionTemplate @ ''('' @ quotedColName @ '')'')) of
                Inl e \<Rightarrow> Inl e
              | Inr sqlFunctionCall \<Rightarrow>
                  let cleanColName = clean_alias colName;
                      cleanMethod = clean_alias knimeMethod;
                      alias =
                        (if columnNamePolicy = JStr ''Aggregation method (column name)''
                         then cleanMethod @ ''_'' @ cleanColName
                         else if columnNamePolicy = JStr ''Column name (aggregation method)''
                         then cleanColName @ ''_'' @ cleanMethod
                         else cleanColName @ ''_agg'')
                  in Inr (Some (sqlFunctionCall @ '' AS '' @ quote_ident alias))))"

text \<open>The loop \<open>for (let i = 0; i < numAggs; i++)\<close> over the common prefix of the two lists.\<close>

fun gb_aggregations :: "jsval \<Rightarrow> jsval \<Rightarrow> (string \<times> string) list \<Rightarrow> error + string list" where
  "gb_aggregations policy delimiter [] = Inr []"
| "gb_aggregations policy delimiter ((colName, knimeMethod) # rest) =
     (case gb_aggregation policy delimiter colName knimeMethod of
        Inl e \<Rightarrow> Inl e
      | Inr a \<Rightarrow>
          (case gb_aggregations policy delimiter rest of
             Inl e \<Rightarrow> Inl e
           | Inr as \<Rightarrow> Inr (case a of None \<Rightarrow> as | Some x \<Rightarrow> x # as)))"

text \<open>Section 3 of the translator: the quoted grouping columns of a model node.\<close>

definition gb_grouping_columns :: "(config option \<Rightarrow> string list) \<Rightarrow> config \<Rightarrow> string list" where
  "gb_grouping_columns getArrayValuesFromConfig modelNode =
     (let groupByColumnsNode = findConfigByKey (cfg_config modelNode) ''grouByColumns'';
          inclListGroupNode = findConfigByKey (opt_config groupByColumnsNode) ''InclList''
      in getArrayValuesFromConfig inclListGroupNode)"

text \<open>Section 4 of the translator: the aggregation texts of a model node.\<close>

definition gb_model_aggregations ::
    "(config option \<Rightarrow> string list) \<Rightarrow> config \<Rightarrow> error + string list" where
  "gb_model_aggregations getArrayValuesFromConfig modelNode =
     (let aggColumnNode = findConfigByKey (cfg_config modelNode) ''aggregationColumn'';
          aggColNamesNode = findConfigByKey (opt_config aggColumnNode) ''columnNames'';
          aggColMethodsNode = findConfigByKey (opt_config aggColumnNode) ''aggregationMethod'';
          aggColumnNames = getArrayValuesFromConfig aggColNamesNode;
          aggMethods = getArrayValuesFromConfig aggColMethodsNode;
          columnNamePolicy =
            or_default (getEntryValue (cfg_entry modelNode) ''columnNamePolicy'')
              ''Aggregation method (column name)'';
          valueDelimiter =
            or_default (getEntryValue (cfg_entry modelNode) ''valueDelimiter'') '', ''
      in gb_aggregations columnNamePolicy valueDelimiter (zip aggColumnNames aggMethods))"

text \<open>A parameter with the default value \<open>"input_table"\<close>: \<open>None\<close> is a call that leaves it out.\<close>

definition default_input :: "string option \<Rightarrow> string" where
  "default_input previousNodeName =
     (case previousNodeName of None \<Rightarrow> ''input_table'' | Some p \<Rightarrow> p)"

text \<open>Section 5 of the translator: the query from the grouping columns and aggregations.\<close>

definition gb_query :: "string list \<Rightarrow> string list \<Rightarrow> string \<Rightarrow> string" where
  "gb_query groupingColumns aggregations previousNodeName =
     (let quotedGroupingColumns = map quote_ident groupingColumns;
          quotedPreviousNodeName = quote_ident previousNodeName;
          selectParts = quotedGroupingColumns @ aggregations
      in if selectParts = []
         then ''Error: Cannot generate SELECT clause. No grouping or aggregation columns specified/successful.''
         else
           let selectClause = ''SELECT\<newline>  '' @ join '',\<newline>  '' selectParts;
               fromClause = ''FROM '' @ quotedPreviousNodeName
           in if quotedGroupingColumns = [] \<and> aggregations = []
              then ''Error: GroupBy node has neither grouping columns nor aggregation columns configured.''
              else
                let groupByClause =
                      (if quotedGroupingColumns \<noteq> []
                       then ''GROUP BY\<newline>  '' @ join '',\<newline>  '' quotedGroupingColumns
                       else [])
                in if groupingColumns \<noteq> [] \<and> aggregations = []
                   then ''SELECT DISTINCT\<newline>  '' @ join '',\<newline>  '' quotedGroupingColumns @
                        ''\<newline>'' @ fromClause @ '';''
                   else join ''\<newline>''
                          ([selectClause, fromClause] @
                           (if groupByClause \<noteq> [] then [groupByClause] else [])) @ '';'')"

text \<open>
  \<open>convertGroupByNodeToSQL(nodeConfig, previousNodeName = "input_table")\<close>. The helper
  \<open>getArrayValuesFromConfig\<close> (src/common/getArrayValuesFromConfig.js) is not among the
  sources; it is a parameter that reads a list of strings from a configuration node.
\<close>

definition convertGroupByNodeToSQL ::
    "(config option \<Rightarrow> string list) \<Rightarrow> config \<Rightarrow> string option \<Rightarrow> error + string" where
  "convertGroupByNodeToSQL getArrayValuesFromConfig nodeConfig previousNodeName =
     (let factory = getEntryValue (cfg_entry nodeConfig) ''factory''
      in if factory \<noteq> JStr GROUPBY_FACTORY
         then Inr (''Error: Expected GroupBy node factory ('' @ GROUPBY_FACTORY @ ''), but got '' @
                   (if truthy factory then ''\"'' @ to_string factory @ ''\"'' else ''N/A'') @ ''.'')
         else
           (case findConfigByKey (cfg_config nodeConfig) ''model'' of
              None \<Rightarrow> Inr ''Error: Model configuration not found or invalid.''
            | Some modelNode \<Rightarrow>
                if \<not> present (cfg_config modelNode) \<or> \<not> present (cfg_entry modelNode)
                then Inr ''Error: Model configuration not found or invalid.''
                else
                  (case gb_model_aggregations getArrayValuesFromConfig modelNode of
                     Inl e \<Rightarrow> Inl e
                   | Inr aggregations \<Rightarrow>
                       Inr (gb_query (gb_grouping_columns getArrayValuesFromConfig modelNode)
                              aggregations (default_input previousNodeName)))))"

text \<open>
  Modelled from the spec: \<open>getArrayValuesFromConfig\<close>, whose file is not among the sources.
  The specification describes it as reading a node whose children are keyed by sequential
  string integers ("0", "1", ...) and returning their scalars in numeric order; a missing
  node is "not configured". Here: the values of the entries keyed "0", "1", ... up to the
  first key that is missing.
\<close>

definition show_digit :: "nat \<Rightarrow> char" where
  "show_digit n = ''0123456789'' ! n"

fun show_nat :: "nat \<Rightarrow> string" where
  "show_nat n = (if n < 10 then [show_digit n] else show_nat (n div 10) @ [show_digit (n mod 10)])"

declare show_nat.simps [simp del]

fun indexed_values :: "entry slot \<Rightarrow> nat \<Rightarrow> nat \<Rightarrow> string list" where
  "indexed_values entries i 0 = []"
| "indexed_values entries i (Suc fuel) =
     (case getEntryValue entries (show_nat i) of
        JStr v \<Rightarrow> v # indexed_values entries (Suc i) fuel
      | _ \<Rightarrow> [])"

definition getArrayValuesFromConfig_spec :: "config option \<Rightarrow> string list" where
  "getArrayValuesFromConfig_spec node =
     (case node of
        None \<Rightarrow> []
      | Some c \<Rightarrow> indexed_values (cfg_entry c) 0 (length (as_array (cfg_entry c))))"

section \<open>Sorter translator\<close>

definition SORTER_FACTORY :: string where
  "SORTER_FACTORY = ''org.knime.base.node.preproc.sorter.SorterNodeFactory''"

text \<open>
  \<open>isNaN(parseInt(key))\<close>: \<open>parseInt\<close> skips leading white space and a sign, reads
  hexadecimal digits after \<open>0x\<close> and decimal digits otherwise, and gives \<open>NaN\<close> when no digit
  follows. A missing key is the text \<open>undefined\<close>, which is \<open>NaN\<close>.
\<close>

definition parseInt_is_number :: "string option \<Rightarrow> bool" where
  "parseInt_is_number key =
     (case key of
        None \<Rightarrow> False
      | Some s \<Rightarrow>
          (case strip_sign (dropWhile is_space s) of
             [] \<Rightarrow> False
           | [z] \<Rightarrow> is_digit z
           | z # x # r \<Rightarrow>
               if z = CHR ''0'' \<and> (x = CHR ''x'' \<or> x = CHR ''X'')
               then (case r of [] \<Rightarrow> False | h # _ \<Rightarrow> is_hex_digit h)
               else is_digit z))"

definition sorter_comment :: "jsval \<Rightarrow> jsval \<Rightarrow> string" where
  "sorter_comment stringComparison columnName =
     (if stringComparison = JStr ''ALPHANUMERIC''
      then '' -- Note: Alphanumeric string comparison requested for '' @ to_string columnName @
           ''. Standard ORDER BY used; verify behavior with DB.''
      else [])"

definition nulls_order :: "jsval \<Rightarrow> string" where
  "nulls_order missingToEnd = (if missingToEnd = JBool True then ''NULLS LAST'' else ''NULLS FIRST'')"

definition sort_direction :: "jsval \<Rightarrow> string" where
  "sort_direction sortingOrder = (if sortingOrder = JStr ''DESCENDING'' then ''DESC'' else ''ASC'')"

text \<open>
  The body of the loop over the criteria: \<open>None\<close> is \<open>continue\<close>, otherwise the text pushed
  onto \<open>orderByParts\<close>.
\<close>

definition sorter_term :: "jsval \<Rightarrow> config \<Rightarrow> error + string option" where
  "sorter_term missingToEnd criterionConfig =
     (case cfg_attributes criterionConfig of
        None \<Rightarrow> Inr None
      | Some a \<Rightarrow>
          if \<not> parseInt_is_number (attr_key a) then Inr None
          else
            let columnNode = findConfigByKey (cfg_config criterionConfig) ''column'';
                columnName = getEntryValue (opt_entry columnNode) ''selected'';
                sortingOrder = getEntryValue (cfg_entry criterionConfig) ''sortingOrder'';
                stringComparison = getEntryValue (cfg_entry criterionConfig) ''stringComparison''
            in if \<not> truthy columnName \<or> \<not> truthy sortingOrder then Inr None
               else
                 let direction = sort_direction sortingOrder;
                     nullsOrder = nulls_order missingToEnd
                 in (case quote_value columnName of
                       Inl e \<Rightarrow> Inl e
                     | Inr quotedColumnName \<Rightarrow>
                         Inr (Some (quotedColumnName @ '' '' @ direction @ '' '' @ nullsOrder @
                                    sorter_comment stringComparison columnName))))"

fun sorter_terms :: "jsval \<Rightarrow> config list \<Rightarrow> error + string list" where
  "sorter_terms missingToEnd [] = Inr []"
| "sorter_terms missingToEnd (c # cs) =
     (case sorter_term missingToEnd c of
        Inl e \<Rightarrow> Inl e
      | Inr t \<Rightarrow>
          (case sorter_terms missingToEnd cs of
             Inl e \<Rightarrow> Inl e
           | Inr ts \<Rightarrow> Inr (case t of None \<Rightarrow> ts | Some x \<Rightarrow> x # ts)))"

text \<open>
  The column that the loop body reads for a criterion, and the criteria that pass both
  guards of the loop body (an attribute \<open>key\<close> that \<open>parseInt\<close> reads as a number, a column
  name and a sorting order that are not empty): the others are skipped by \<open>continue\<close>.
\<close>

definition criterion_column :: "config \<Rightarrow> jsval" where
  "criterion_column criterionConfig =
     getEntryValue (opt_entry (findConfigByKey (cfg_config criterionConfig) ''column'')) ''selected''"

definition criterion_kept :: "config \<Rightarrow> bool" where
  "criterion_kept criterionConfig =
     ((case cfg_attributes criterionConfig of
         None \<Rightarrow> False
       | Some a \<Rightarrow> parseInt_is_number (attr_key a)) \<and>
      truthy (criterion_column criterionConfig) \<and>
      truthy (getEntryValue (cfg_entry criterionConfig) ''sortingOrder''))"

definition sorter_no_criteria :: "string \<Rightarrow> string" where
  "sorter_no_criteria previousNodeName =
     ''SELECT * FROM '' @ quote_ident previousNodeName @
     ''; -- Warning: No sorting criteria found''"

definition sorter_no_valid_criteria :: "string \<Rightarrow> string" where
  "sorter_no_valid_criteria previousNodeName =
     ''SELECT * FROM '' @ quote_ident previousNodeName @
     ''; -- Warning: No valid sorting criteria processed''"

text \<open>\<open>convertSorterNodeToSQL(nodeConfig, previousNodeName = "input_table")\<close>.\<close>

definition convertSorterNodeToSQL :: "config \<Rightarrow> string option \<Rightarrow> error + string" where
  "convertSorterNodeToSQL nodeConfig previousNodeName =
     (let factory = getEntryValue (cfg_entry nodeConfig) ''factory''
      in if factory \<noteq> JStr SORTER_FACTORY
         then Inr (''Error: Expected Sorter node factory ('' @ SORTER_FACTORY @ ''), but got '' @
                   (if truthy factory then ''\"'' @ to_string factory @ ''\"'' else ''N/A'') @ ''.'')
         else
           (case findConfigByKey (cfg_config nodeConfig) ''model'' of
              None \<Rightarrow> Inr ''Error: Model configuration not found or invalid.''
            | Some modelNode \<Rightarrow>
                if \<not> present (cfg_config modelNode) \<or> \<not> present (cfg_entry modelNode)
                then Inr ''Error: Model configuration not found or invalid.''
                else
                  (case findConfigByKey (cfg_config modelNode) ''sortingCriteria'' of
                     None \<Rightarrow> Inr (sorter_no_criteria (default_input previousNodeName))
                   | Some sortingCriteriaNode \<Rightarrow>
                       if \<not> present (cfg_config sortingCriteriaNode)
                       then Inr (sorter_no_criteria (default_input previousNodeName))
                       else
                         let criteriaConfigs = as_array (cfg_config sortingCriteriaNode);
                             missingToEnd = getEntryValue (cfg_entry modelNode) ''missingToEnd''
                         in (case sorter_terms missingToEnd criteriaConfigs of
                               Inl e \<Rightarrow> Inl e
                             | Inr orderByParts \<Rightarrow>
                                 if orderByParts = []
                                 then Inr (sorter_no_valid_criteria (default_input previousNodeName))
                                 else
                                   Inr (''SELECT *'' @ ''\<newline>'' @
                                        ''FROM '' @ quote_ident (default_input previousNodeName) @
                                        ''\<newline>'' @
                                        ''ORDER BY\<newline>  '' @ join '',\<newline>  '' orderByParts @
                                        '';'')))))"

section \<open>Concatenate translator\<close>

definition CONCATENATE_FACTORY :: string where
  "CONCATENATE_FACTORY = ''org.knime.base.node.preproc.append.row.AppendedRowsNodeFactory''"

text \<open>
  One predecessor context \<open>{ nodeName, nodes }\<close>: an empty \<open>nodeName\<close> stands for a missing or
  empty name, \<open>nodes = None\<close> for a \<open>nodes\<close> property that is not an array. The second
  argument of the translator is an array of contexts, or some other value, of which the
  diagnostic prints the \<open>length\<close> property (0 when it has none).
\<close>

datatype pred_context = PredContext (nodeName: string) (nodes: "string list option")

datatype predecessors = NotAnArray nat | Contexts "pred_context list"

text \<open>\<open>new Set(xs)\<close> and \<open>[...set]\<close>: the distinct elements in the order of their first occurrence.\<close>

definition set_add :: "'a list \<Rightarrow> 'a \<Rightarrow> 'a list" where
  "set_add acc x = (if x \<in> set acc then acc else acc @ [x])"

definition new_Set :: "'a list \<Rightarrow> 'a list" where
  "new_Set xs = foldl set_add [] xs"

definition pred_columns :: "pred_context \<Rightarrow> string list" where
  "pred_columns p = new_Set (case nodes p of None \<Rightarrow> [] | Some ns \<Rightarrow> ns)"

text \<open>The loop that keeps the columns common to all predecessors, starting from the first.\<close>

definition intersect_columns :: "string list list \<Rightarrow> string list" where
  "intersect_columns allInputColumnSets =
     (case allInputColumnSets of
        [] \<Rightarrow> []
      | first # rest \<Rightarrow> foldl (\<lambda>intersection s. filter (\<lambda>col. col \<in> set s) intersection) first rest)"

definition union_columns :: "string list list \<Rightarrow> string list" where
  "union_columns allInputColumnSets = foldl (\<lambda>unionSet colSet. foldl set_add unionSet colSet) [] allInputColumnSets"

text \<open>
  \<open>finalOutputColumns.sort()\<close> orders strings by their code units, a proper prefix first:
  the lexicographic order on character lists.
\<close>

definition output_columns :: "bool \<Rightarrow> pred_context list \<Rightarrow> string list" where
  "output_columns intersectionOfColumns preds =
     (let allInputColumnSets = map pred_columns preds
      in if intersectionOfColumns then intersect_columns allInputColumnSets
         else union_columns allInputColumnSets)"

definition final_columns :: "bool \<Rightarrow> pred_context list \<Rightarrow> string list" where
  "final_columns intersectionOfColumns preds = sort (output_columns intersectionOfColumns preds)"

definition select_item :: "pred_context \<Rightarrow> string \<Rightarrow> string" where
  "select_item p col =
     (if col \<in> set (pred_columns p)
      then quote_ident (nodeName p) @ ''.'' @ quote_ident col
      else ''NULL AS '' @ quote_ident col)"

definition select_list :: "string list \<Rightarrow> pred_context \<Rightarrow> string list" where
  "select_list finalOutputColumns p = map (select_item p) finalOutputColumns"

definition select_statement :: "string list \<Rightarrow> pred_context \<Rightarrow> string" where
  "select_statement finalOutputColumns p =
     ''SELECT\<newline>    '' @ join '',\<newline>    '' (select_list finalOutputColumns p) @
     ''\<newline>  FROM '' @ quote_ident (nodeName p)"

definition valid_context :: "pred_context \<Rightarrow> bool" where
  "valid_context p = (nodeName p \<noteq> [] \<and> nodes p \<noteq> None)"

text \<open>The validation loop: the index and the context of the first invalid predecessor.\<close>

fun first_invalid :: "nat \<Rightarrow> pred_context list \<Rightarrow> (nat \<times> pred_context) option" where
  "first_invalid i [] = None"
| "first_invalid i (p # ps) = (if valid_context p then first_invalid (Suc i) ps else Some (i, p))"

definition concat_comment :: "bool \<Rightarrow> jsval \<Rightarrow> jsval \<Rightarrow> string" where
  "concat_comment intersectionOfColumns failOnDuplicates appendSuffix =
     ''-- Concatenate Node Conversion (using UNION ALL)\<newline>'' @
     (if intersectionOfColumns then ''-- Mode: Intersection of columns\<newline>''
      else ''-- Mode: Union of columns (default)\<newline>'') @
     (if failOnDuplicates \<noteq> JNull \<or> appendSuffix \<noteq> JNull
      then ''-- Note: KNIME options 'fail_on_duplicates' and 'append_suffix' for column names are not directly translated. SQL UNION ALL requires columns in SELECT lists to align.\<newline>''
      else [])"

text \<open>\<open>modelNode?.entry || nodeConfig.entry\<close>.\<close>

definition config_source :: "config \<Rightarrow> entry slot" where
  "config_source nodeConfig =
     (case findConfigByKey (cfg_config nodeConfig) ''model'' of
        None \<Rightarrow> cfg_entry nodeConfig
      | Some modelNode \<Rightarrow>
          if present (cfg_entry modelNode) then cfg_entry modelNode else cfg_entry nodeConfig)"

text \<open>
  \<open>convertConcatenateNodeToSQL(nodeConfig, predecessorNodeContext)\<close>. \<open>JSON.stringify\<close> is a
  built-in of the runtime; its text for the second argument and for one context are the
  parameters \<open>stringify\<close> and \<open>stringify_pred\<close>.
\<close>

definition convertConcatenateNodeToSQL ::
    "(predecessors \<Rightarrow> string) \<Rightarrow> (pred_context \<Rightarrow> string) \<Rightarrow> config \<Rightarrow> predecessors
       \<Rightarrow> error + string" where
  "convertConcatenateNodeToSQL stringify stringify_pred nodeConfig predecessorNodeContext =
     (let factory = getEntryValue (cfg_entry nodeConfig) ''factory''
      in if factory \<noteq> JStr CONCATENATE_FACTORY
         then Inr (''Error: Expected Concatenate node factory ('' @ CONCATENATE_FACTORY @
                   ''), but got '' @
                   (if truthy factory then ''\"'' @ to_string factory @ ''\"'' else ''N/A'') @ ''.'')
         else
           (case predecessorNodeContext of
              NotAnArray len \<Rightarrow>
                Inr (''Error: Concatenate node requires at least two predecessors, but found '' @
                     show_nat len @ ''. Context: '' @ stringify predecessorNodeContext)
            | Contexts preds \<Rightarrow>
                if length preds < 2
                then Inr (''Error: Concatenate node requires at least two predecessors, but found '' @
                          show_nat (length preds) @ ''. Context: '' @
                          stringify predecessorNodeContext)
                else
                  (case first_invalid 0 preds of
                     Some (i, p) \<Rightarrow>
                       Inr (''Error: Invalid predecessor context at index '' @ show_nat i @
                            ''. Expected { nodeName: string, nodes: string[] }, got: '' @
                            stringify_pred p)
                   | None \<Rightarrow>
                       let configSource = config_source nodeConfig;
                           intersectionOfColumns =
                             (getEntryValue configSource ''intersection_of_columns'' = JBool True);
                           failOnDuplicates = getEntryValue configSource ''fail_on_duplicates'';
                           appendSuffix = getEntryValue configSource ''append_suffix'';
                           sqlComment = concat_comment intersectionOfColumns failOnDuplicates appendSuffix;
                           sqlComment = concat_comment intersectionOfColumns failOnDuplicates appendSuffix
                       in if intersectionOfColumns \<and> output_columns intersectionOfColumns preds = []
                          then Inr ''Error: Intersection of columns resulted in an empty column set.''
                          else
                            let finalOutputColumns = final_columns intersectionOfColumns preds
                            in if finalOutputColumns = []
                               then Inr ''Error: No columns determined for the output.''
                               else
                                 let unionParts = map (select_statement finalOutputColumns) preds;
                                     finalSql = sqlComment @ join ''\<newline>UNION ALL\<newline>'' unionParts
                                 in Inr (trim finalSql @ '';''))))"

section \<open>Dispatcher and graph builder (KNIMEViewer.jsx)\<close>

text \<open>
  The viewer has its own \<open>getEntryValue(data, key)\<close>: it reads \<open>data.entry\<close>, its search
  \<open>entries.find((e) => e._attributes.key === key)\<close> faults on an entry without attributes,
  and a missing value is the empty string.
\<close>

fun find_entry_strict :: "entry list \<Rightarrow> string \<Rightarrow> error + entry option" where
  "find_entry_strict [] k = Inr None"
| "find_entry_strict (e # es) k =
     (case entry_attributes e of
        None \<Rightarrow> Inl TypeError
      | Some a \<Rightarrow> if attr_key a = Some k then Inr (Some e) else find_entry_strict es k)"

definition viewer_getEntryValue :: "config option \<Rightarrow> string \<Rightarrow> error + string" where
  "viewer_getEntryValue data k =
     (if \<not> present (opt_entry data) then Inr []
      else
        (case find_entry_strict (as_array (opt_entry data)) k of
           Inl e \<Rightarrow> Inl e
         | Inr None \<Rightarrow> Inr []
         | Inr (Some entry) \<Rightarrow>
             (case entry_attributes entry of
                None \<Rightarrow> Inr []
              | Some a \<Rightarrow> (case attr_value a of None \<Rightarrow> Inr [] | Some v \<Rightarrow> Inr v))))"

definition CSV_READER_FACTORY :: string where
  "CSV_READER_FACTORY = ''org.knime.base.node.io.filehandling.csv.reader.CSVTableReaderNodeFactory''"

definition COLUMN_FILTER_FACTORY :: string where
  "COLUMN_FILTER_FACTORY =
     ''org.knime.base.node.preproc.filter.column.DataColumnSpecFilterNodeFactory''"

definition not_supported :: string where
  "not_supported = ''Conversion for this node type is not supported.''"

definition missing_factory :: string where
  "missing_factory = ''Invalid node configuration: missing factory value.''"

text \<open>
  \<open>convertSelectedNodeToSQL(nodeConfig, previousNodeName)\<close>. The two translators it calls,
  \<open>convertCSVReaderNodeToSQL\<close> and \<open>convertColumnFilterNodeToSQL\<close>, are not among the sources
  and are parameters. \<open>previousNodeName || "input_table"\<close> replaces a missing or empty name.
\<close>

definition convertSelectedNodeToSQL ::
    "(config \<Rightarrow> error + string) \<Rightarrow> (config \<Rightarrow> string \<Rightarrow> error + string) \<Rightarrow> config
       \<Rightarrow> string option \<Rightarrow> error + string" where
  "convertSelectedNodeToSQL convertCSVReaderNodeToSQL convertColumnFilterNodeToSQL
       nodeConfig previousNodeName =
     (case viewer_getEntryValue (Some nodeConfig) ''factory'' of
        Inl e \<Rightarrow> Inl e
      | Inr factory \<Rightarrow>
          if factory = [] then Inr missing_factory
          else if factory = CSV_READER_FACTORY then convertCSVReaderNodeToSQL nodeConfig
          else if factory = COLUMN_FILTER_FACTORY
          then convertColumnFilterNodeToSQL nodeConfig
                 (case previousNodeName of
                    None \<Rightarrow> ''input_table''
                  | Some p \<Rightarrow> if p = [] then ''input_table'' else p)
          else Inr not_supported)"

text \<open>The prefix that marks a diagnostic of the translators.\<close>

definition is_diagnostic :: "string \<Rightarrow> bool" where
  "is_diagnostic s = starts_with s ''Error:''"

subsection \<open>Node records built by \<open>handleUpload\<close>\<close>

text \<open>
  \<open>nodeFolder.match(/#(\d+)\)?$/)\<close>: the digits after a \<open>#\<close> when only an optional closing
  parenthesis follows them up to the end of the name.
\<close>

definition id_suffix :: "string \<Rightarrow> string option" where
  "id_suffix r =
     (let ds = takeWhile is_digit r; rest = dropWhile is_digit r
      in if ds \<noteq> [] \<and> (rest = [] \<or> rest = '')'') then Some ds else None)"

fun match_id :: "string \<Rightarrow> string option" where
  "match_id [] = None"
| "match_id (c # cs) =
     (if c = CHR ''#''
      then (case id_suffix cs of Some ds \<Rightarrow> Some ds | None \<Rightarrow> match_id cs)
      else match_id cs)"

text \<open>\<open>filePath.split("/")\<close>, the last part of a path, and the part before the last.\<close>

fun split_path :: "string \<Rightarrow> string list" where
  "split_path [] = [Nil]"
| "split_path (c # cs) =
     (case split_path cs of
        [] \<Rightarrow> [Nil]
      | part # parts \<Rightarrow> if c = CHR ''/'' then [] # part # parts else (c # part) # parts)"

definition last_part :: "string \<Rightarrow> string" where
  "last_part filePath = (let parts = split_path filePath in parts ! (length parts - 1))"

definition is_settings_path :: "string \<Rightarrow> bool" where
  "is_settings_path filePath =
     (let parts = split_path filePath in length parts > 1 \<and> last_part filePath = ''settings.xml'')"

definition node_folder :: "string \<Rightarrow> string" where
  "node_folder item = (let pathParts = split_path item in pathParts ! (length pathParts - 2))"

text \<open>
  Node ids are JavaScript numbers, of a type \<open>'n\<close> that the model leaves open. Two built-ins
  of the runtime are parameters: \<open>parseIntTen digits\<close> is \<open>parseInt(digits, 10)\<close>, a
  floating-point number that is the value of the digits only while that value is small
  enough, and \<open>key_of n\<close> is the property key under which an object stores the number \<open>n\<close>
  (its string conversion, which is never the name of a property that every object
  inherits).
\<close>

definition node_id_of :: "(string \<Rightarrow> 'n) \<Rightarrow> string \<Rightarrow> 'n option" where
  "node_id_of parseIntTen nodeFolder = map_option parseIntTen (match_id nodeFolder)"

text \<open>
  The two lookup tables built from the descriptor, objects indexed by the keys of the
  ids: the position of every declared node (the last position when two ids have the
  same key) and the destinations per source in the order of the connections.
\<close>

definition nodeOrderMap :: "('n \<Rightarrow> string) \<Rightarrow> 'n list \<Rightarrow> string \<Rightarrow> nat option" where
  "nodeOrderMap key_of nodeIds =
     foldl (\<lambda>m (index, nid). m(key_of nid \<mapsto> index)) Map.empty
       (zip [0..<length nodeIds] nodeIds)"

definition nextNodeMap :: "('n \<Rightarrow> string) \<Rightarrow> ('n \<times> 'n) list \<Rightarrow> string \<Rightarrow> 'n list option" where
  "nextNodeMap key_of connections =
     foldl (\<lambda>m (sourceID, destID).
              m(key_of sourceID \<mapsto>
                (case m (key_of sourceID) of None \<Rightarrow> [] | Some ds \<Rightarrow> ds) @ [destID]))
       Map.empty connections"

record 'n node_record =
  node_id :: "'n option"
  node_name :: string
  node_type :: string
  node_status :: string
  node_description :: string
  node_config :: "config option"
  node_order :: "nat option"
  next_nodes :: "'n list"

text \<open>
  The callback of \<open>xmlPaths.forEach\<close> for one file of the archive, a path with a content of
  a type \<open>'f\<close> that the model leaves open. The parameter \<open>parse_settings\<close> stands for reading
  the text, \<open>xml2json\<close> and \<open>JSON.parse\<close>, and gives the \<open>config\<close> property of the document
  (\<open>None\<close> when it has none) or the fault of one of these steps. A fault in the callback
  rejects its promise and no record is appended. \<open>node_order = None\<close> is the order \<open>"N/A"\<close>.
\<close>

definition make_node ::
    "('f \<Rightarrow> error + config option) \<Rightarrow> (string \<Rightarrow> 'n) \<Rightarrow> ('n \<Rightarrow> string) \<Rightarrow> 'n list
       \<Rightarrow> ('n \<times> 'n) list \<Rightarrow> string \<times> 'f \<Rightarrow> error + 'n node_record" where
  "make_node parse_settings parseIntTen key_of nodeIds connections item =
     (case parse_settings (snd item) of
        Inl e \<Rightarrow> Inl e
      | Inr jsonObj_config \<Rightarrow>
     (let nodeId = node_id_of parseIntTen (node_folder (fst item));
          order = (case nodeId of
                     None \<Rightarrow> None
                   | Some i \<Rightarrow> nodeOrderMap key_of nodeIds (key_of i));
          nextNodes = (case nodeId of
                         None \<Rightarrow> []
                       | Some i \<Rightarrow>
                           (case nextNodeMap key_of connections (key_of i) of
                              None \<Rightarrow> []
                            | Some ds \<Rightarrow> ds))
      in case viewer_getEntryValue jsonObj_config ''name'' of
           Inl e \<Rightarrow> Inl e
         | Inr name \<Rightarrow>
        (case viewer_getEntryValue jsonObj_config ''factory'' of
           Inl e \<Rightarrow> Inl e
         | Inr factory \<Rightarrow>
        (case viewer_getEntryValue jsonObj_config ''state'' of
           Inl e \<Rightarrow> Inl e
         | Inr state \<Rightarrow>
        (case viewer_getEntryValue jsonObj_config ''customDescription'' of
           Inl e \<Rightarrow> Inl e
         | Inr description \<Rightarrow>
             Inr \<lparr> node_id = nodeId, node_name = name, node_type = factory,
                   node_status = state, node_description = description,
                   node_config = jsonObj_config, node_order = order,
                   next_nodes = nextNodes \<rparr>)))))"

fun collect_records :: "(error + 'n node_record) list \<Rightarrow> 'n node_record list" where
  "collect_records [] = []"
| "collect_records (Inl e # rs) = collect_records rs"
| "collect_records (Inr r # rs) = r # collect_records rs"

text \<open>
  The records that \<open>handleUpload(file)\<close> appends to \<open>nodeData\<close>, once every callback has
  finished, listed in the order of the paths (the callbacks may finish in another order).
  The argument is what \<open>zip.loadAsync\<close> gave: \<open>None\<close> when it faulted, otherwise the files of
  the archive in the order of \<open>Object.keys\<close>. Without a file named \<open>workflow.knime\<close> the
  function reports an error and returns. The parameter \<open>parse_descriptor\<close> stands for reading
  that file, \<open>xml2json\<close>, \<open>JSON.parse\<close> and \<open>parseWorkflowKnime\<close> (not among the sources), and
  gives the ids of the nodes and the connections (source, destination) of its result, or
  a fault when one of these steps faults or the result does not hold the two arrays; a
  fault there is caught, reported, and nothing is appended.
\<close>

definition handleUpload_nodeData ::
    "('f \<Rightarrow> error + 'n list \<times> ('n \<times> 'n) list) \<Rightarrow> ('f \<Rightarrow> error + config option)
       \<Rightarrow> (string \<Rightarrow> 'n) \<Rightarrow> ('n \<Rightarrow> string) \<Rightarrow> (string \<times> 'f) list option
       \<Rightarrow> 'n node_record list" where
  "handleUpload_nodeData parse_descriptor parse_settings parseIntTen key_of zipContent =
     (case zipContent of
        None \<Rightarrow> []
      | Some allFiles \<Rightarrow>
          (case List.find (\<lambda>f. last_part (fst f) = ''workflow.knime'') allFiles of
             None \<Rightarrow> []
           | Some knimeFile \<Rightarrow>
               (case parse_descriptor (snd knimeFile) of
                  Inl e \<Rightarrow> []
                | Inr (nodeIds, connections) \<Rightarrow>
                    collect_records
                      (map (make_node parse_settings parseIntTen key_of nodeIds connections)
                         (filter (\<lambda>f. is_settings_path (fst f)) allFiles)))))"

section \<open>Specification-side definitions and example inputs\<close>

text \<open>
  The wildcard translation in the words of the specification, character by character:
  a literal \<open>%\<close> or \<open>_\<close> is escaped with a backslash, \<open>*\<close> becomes \<open>%\<close>, \<open>?\<close> becomes \<open>_\<close>.
\<close>

definition spec_wildcard :: "char \<Rightarrow> string" where
  "spec_wildcard c =
     (if c = CHR ''%'' then [CHR 0x5C, CHR ''%'']
      else if c = CHR ''_'' then [CHR 0x5C, CHR ''_'']
      else if c = CHR ''*'' then ''%''
      else if c = CHR ''?'' then ''_''
      else [c])"

text \<open>The clause \<open>ESCAPE '\'\<close> with its leading space.\<close>

definition like_escape :: string where
  "like_escape = '' ESCAPE '' @ [CHR 0x27, CHR 0x5C, CHR 0x27]"

text \<open>Elements \<open><entry key=.. type=.. value=../>\<close> and \<open><config key=..>\<close> as xml-js gives them.\<close>

definition xml_entry :: "string \<Rightarrow> string \<Rightarrow> string \<Rightarrow> entry" where
  "xml_entry k t v = Entry (Some (Attributes (Some k) (Some t) (Some v)))"

definition xml_config :: "string \<Rightarrow> entry slot \<Rightarrow> config slot \<Rightarrow> config" where
  "xml_config k es cs = Config (Some (Attributes (Some k) None None)) es cs"

text \<open>A Row Filter settings tree: value configuration, predicate, node.\<close>

definition example_value :: "string \<Rightarrow> string \<Rightarrow> string \<Rightarrow> string \<Rightarrow> config" where
  "example_value valueType v cellClass isNull =
     xml_config ''0'' (Single (xml_entry ''value'' valueType v))
       (Many [xml_config ''typeIdentifier''
                (Many [xml_entry ''cell_class'' ''xstring'' cellClass,
                       xml_entry ''is_null'' ''xboolean'' isNull]) Absent,
              xml_config ''stringCaseMatching''
                (Single (xml_entry ''caseMatching'' ''xstring'' ''CASEINSENSITIVE'')) Absent])"

definition example_predicate :: "string \<Rightarrow> string \<Rightarrow> string \<Rightarrow> config \<Rightarrow> config" where
  "example_predicate k column operator valueConfig =
     xml_config k (Single (xml_entry ''operator'' ''xstring'' operator))
       (Many [xml_config ''column'' (Single (xml_entry ''selected'' ''xstring'' column)) Absent,
              xml_config ''predicateValues'' Absent
                (Single (xml_config ''values'' Absent (Single valueConfig)))])"

definition example_row_filter :: "string \<Rightarrow> string \<Rightarrow> config list \<Rightarrow> config" where
  "example_row_filter outputMode matchCriteria predicates =
     Config None
       (Many [xml_entry ''factory'' ''xstring'' ROW_FILTER_FACTORY,
              xml_entry ''name'' ''xstring'' ''Row Filter''])
       (Many [xml_config ''model''
                (Many [xml_entry ''matchCriteria'' ''xstring'' matchCriteria,
                       xml_entry ''outputMode'' ''xstring'' outputMode])
                (Single (xml_config ''predicates'' Absent (Many predicates))),
              xml_config ''internal_node_subsettings'' Absent Absent])"

text \<open>A node of a type the dispatcher has no translator for.\<close>

definition example_unknown_node :: config where
  "example_unknown_node =
     Config None
       (Many [xml_entry ''factory'' ''xstring'' ''org.knime.base.node.preproc.filter.row3.RowFilterNodeFactory'',
              xml_entry ''name'' ''xstring'' ''Row Filter'']) Absent"

text \<open>A Sorter settings tree: criterion, node.\<close>

definition example_criterion :: "string \<Rightarrow> string \<Rightarrow> string \<Rightarrow> string \<Rightarrow> config" where
  "example_criterion k column sortingOrder stringComparison =
     xml_config k
       (Many [xml_entry ''sortingOrder'' ''xstring'' sortingOrder,
              xml_entry ''stringComparison'' ''xstring'' stringComparison])
       (Single (xml_config ''column'' (Single (xml_entry ''selected'' ''xstring'' column)) Absent))"

definition example_sorter :: "string \<Rightarrow> config slot \<Rightarrow> config" where
  "example_sorter missingToEnd criteria =
     Config None
       (Many [xml_entry ''factory'' ''xstring'' SORTER_FACTORY,
              xml_entry ''name'' ''xstring'' ''Sorter''])
       (Many [xml_config ''model''
                (Many [xml_entry ''missingToEnd'' ''xboolean'' missingToEnd,
                       xml_entry ''sortInMemory'' ''xboolean'' ''false''])
                (Single (xml_config ''sortingCriteria'' Absent criteria)),
              xml_config ''internal_node_subsettings'' Absent Absent])"

text \<open>
  An array of strings as KNIME stores it, a GroupBy settings tree, a Concatenate settings
  tree, and two predecessor contexts with the columns \<open>{a, b}\<close> and \<open>{b, c}\<close>.
\<close>

definition example_array :: "string \<Rightarrow> string list \<Rightarrow> config" where
  "example_array k xs =
     xml_config k
       (Many (xml_entry ''array-size'' ''xint'' (show_nat (length xs)) #
              map (\<lambda>(i, x). xml_entry (show_nat i) ''xstring'' x) (zip [0..<length xs] xs)))
       Absent"

definition example_groupby :: "string list \<Rightarrow> string list \<Rightarrow> string list \<Rightarrow> entry list \<Rightarrow> config" where
  "example_groupby groupingColumns aggregationColumns aggregationMethods modelEntries =
     Config None
       (Many [xml_entry ''factory'' ''xstring'' GROUPBY_FACTORY,
              xml_entry ''name'' ''xstring'' ''GroupBy''])
       (Many [xml_config ''model''
                (Many (xml_entry ''columnNamePolicy'' ''xstring'' ''Aggregation method (column name)'' #
                       modelEntries))
                (Many [xml_config ''grouByColumns'' Absent
                         (Many [example_array ''InclList'' groupingColumns,
                                example_array ''ExclList'' []]),
                       xml_config ''aggregationColumn'' Absent
                         (Many [example_array ''columnNames'' aggregationColumns,
                                example_array ''aggregationMethod'' aggregationMethods])]),
              xml_config ''internal_node_subsettings'' Absent Absent])"

definition example_concatenate :: "string \<Rightarrow> config" where
  "example_concatenate intersection =
     Config None
       (Many [xml_entry ''factory'' ''xstring'' CONCATENATE_FACTORY,
              xml_entry ''name'' ''xstring'' ''Concatenate''])
       (Many [xml_config ''model''
                (Single (xml_entry ''intersection_of_columns'' ''xboolean'' intersection)) Absent,
              xml_config ''internal_node_subsettings'' Absent Absent])"

definition example_predecessors :: "pred_context list" where
  "example_predecessors =
     [PredContext ''left'' (Some [''a'', ''b'']), PredContext ''right'' (Some [''b'', ''c''])]"

text \<open>The exposed columns of a predecessor context, as the set of the specification.\<close>

definition exposed_columns :: "pred_context \<Rightarrow> string set" where
  "exposed_columns p = (case nodes p of None \<Rightarrow> {} | Some ns \<Rightarrow> set ns)"

text \<open>
  An archive for the examples: a file is a descriptor (node ids and connections), a
  settings document (its \<open>config\<close>), or text that cannot be decoded. In the examples ids
  are natural numbers, \<open>parseIntTen\<close> is the value of the digits (which is what \<open>parseInt\<close>
  returns below \<open>2^53\<close>) and \<open>key_of\<close> is the decimal numeral.
\<close>

datatype example_content =
  WorkflowXml "nat list" "(nat \<times> nat) list" | SettingsXml "config option" | Garbage

fun example_descriptor :: "example_content \<Rightarrow> error + nat list \<times> (nat \<times> nat) list" where
  "example_descriptor (WorkflowXml nodeIds connections) = Inr (nodeIds, connections)"
| "example_descriptor c = Inl TypeError"

fun example_settings :: "example_content \<Rightarrow> error + config option" where
  "example_settings (SettingsXml c) = Inr c"
| "example_settings c = Inl TypeError"

definition digit_value :: "char \<Rightarrow> nat" where
  "digit_value c = of_char c - of_char (CHR ''0'')"

definition digits_value :: "string \<Rightarrow> nat" where
  "digits_value ds = foldl (\<lambda>n c. 10 * n + digit_value c) 0 ds"

definition example_files :: "(string \<times> example_content) list" where
  "example_files =
     [(''wf/workflow.knime'', WorkflowXml [5, 3] [(5, 3)]),
      (''wf/Row Filter (#3)/settings.xml'', SettingsXml (Some example_unknown_node)),
      (''wf/Notes/settings.xml'', SettingsXml None)]"

section \<open>Lemmas about the accessors\<close>

lemmas example_defs = xml_entry_def xml_config_def example_value_def example_predicate_def
  example_row_filter_def

lemmas accessor_defs = findConfigByKey_def findEntryByKey_def find_by_key_def has_key_def
  getEntryValue_def opt_entry_def opt_config_def entry_value_def

lemma getEntryValue_nonempty: "getEntryValue e k = JStr v \<Longrightarrow> v \<noteq> []"
  by (auto simp: getEntryValue_def split: option.splits if_splits)

lemma find_by_key_present: "find_by_key f p k = Some x \<Longrightarrow> present p"
  by (auto simp: find_by_key_def split: if_splits)

lemma findConfigByKey_present: "findConfigByKey p k = Some x \<Longrightarrow> present p"
  by (auto simp: findConfigByKey_def dest: find_by_key_present)

lemma getEntryValue_present: "getEntryValue p k \<noteq> JNull \<Longrightarrow> present p"
  by (auto simp: getEntryValue_def findEntryByKey_def find_by_key_def split: option.splits if_splits)

lemma replace_all_Nil [simp]: "replace_all c r [] = []"
  by (simp add: replace_all_def)

lemma replace_all_Cons [simp]:
  "replace_all c r (x # xs) = (if x = c then r else [x]) @ replace_all c r xs"
  by (simp add: replace_all_def)

lemma replace_all_append [simp]:
  "replace_all c r (a @ b) = replace_all c r a @ replace_all c r b"
  by (simp add: replace_all_def)

section \<open>Properties of the Row Filter operator table\<close>

text \<open>
  Claim C5, as stated, says that no KNIME operator outside the table is mapped to a SQL
  operator. The \<open>default\<close> branch of \<open>mapKnimeOperatorToSQL\<close> maps every other operator to
  \<open>=\<close>: the operator \<open>IN\<close> is not in the table and is mapped to a SQL operator of the table.
\<close>

theorem operator_outside_table_counterexample:
  "''IN'' \<notin> set (map fst spec_operator_table) \<and>
   mapKnimeOperatorToSQL ''IN'' \<in> set (map snd spec_operator_table)"
  by (simp add: spec_operator_table_def mapKnimeOperatorToSQL_def)

text \<open>
  Claim C5, amended: \<open>mapKnimeOperatorToSQL\<close> maps the ten KNIME operators of the table to
  their ten SQL operators, one to one; every operator outside the table is mapped to \<open>=\<close>;
  so every result is one of the ten SQL operators.
\<close>

theorem mapKnimeOperatorToSQL_table:
  "map mapKnimeOperatorToSQL (map fst spec_operator_table) = map snd spec_operator_table \<and>
   distinct (map fst spec_operator_table) \<and> distinct (map snd spec_operator_table) \<and>
   (knimeOperator \<notin> set (map fst spec_operator_table) \<longrightarrow>
      mapKnimeOperatorToSQL knimeOperator = ''='') \<and>
   mapKnimeOperatorToSQL knimeOperator \<in> set (map snd spec_operator_table)"
  by (simp add: spec_operator_table_def mapKnimeOperatorToSQL_def)

theorem mapKnimeOperatorToSQL_table_witness:
  "''IN'' \<notin> set (map fst spec_operator_table) \<and> mapKnimeOperatorToSQL ''IN'' = ''=''"
proof -
  have outside: "''IN'' \<notin> set (map fst spec_operator_table)"
    by (simp add: spec_operator_table_def)
  from mapKnimeOperatorToSQL_table [of "''IN''"]
  have "''IN'' \<notin> set (map fst spec_operator_table) \<longrightarrow> mapKnimeOperatorToSQL ''IN'' = ''=''"
    by (elim conjE)
  with outside show ?thesis by blast
qed

section \<open>Properties of the Row Filter predicates\<close>

text \<open>
  A predicate with a column node, an operator entry with a non-empty value, and a values
  node under \<open>predicateValues\<close>, whose selected column is a string: the operators
  \<open>IS_MISSING\<close> and \<open>IS_NOT_MISSING\<close> are answered at once, every other operator goes on to
  the value configuration.
\<close>

lemma rf_predicate_value:
  assumes "findConfigByKey (cfg_config p) ''column'' = Some columnNode"
      and "findEntryByKey (cfg_entry p) ''operator'' = Some operatorEntry"
      and "findConfigByKey (cfg_config p) ''predicateValues'' = Some predicateValuesNode"
      and "getEntryValue (cfg_entry columnNode) ''selected'' = JStr c"
      and "entry_value operatorEntry = Inr (Some op)"
      and "op \<noteq> []"
      and "findConfigByKey (cfg_config predicateValuesNode) ''values'' = Some valuesNode"
      and "present (cfg_config valuesNode)"
  shows "rf_predicate p =
           (if mapKnimeOperatorToSQL op = ''IS NULL'' \<or> mapKnimeOperatorToSQL op = ''IS NOT NULL''
            then Inr (Some (quote_ident c @ '' '' @ mapKnimeOperatorToSQL op))
            else rf_value_condition (JStr c) (mapKnimeOperatorToSQL op) (cfg_config valuesNode))"
proof -
  have 1: "present (cfg_config p)" using assms(1) by (rule findConfigByKey_present)
  have 2: "present (cfg_config predicateValuesNode)" using assms(7) by (rule findConfigByKey_present)
  have 3: "c \<noteq> []" using assms(4) by (rule getEntryValue_nonempty)
  show ?thesis
    unfolding rf_predicate_def
    by (simp add: assms 1 2 3 quote_value_def quote_ident_def)
qed

subsection \<open>Wildcards and the ESCAPE clause\<close>

lemma translate_charwise:
  "translateKnimeWildcardToSQL (JStr v) = concat (map spec_wildcard v)"
  by (induction v) (simp_all add: spec_wildcard_def)

lemma plain_charwise:
  "replace_all (CHR ''?'') ''_'' (replace_all (CHR ''*'') ''%'' v) =
     concat (map (\<lambda>c. if c = CHR ''*'' then ''%'' else if c = CHR ''?'' then ''_'' else [c]) v)"
  by (induction v) simp_all

lemma length_translate:
  "length (concat (map spec_wildcard v)) =
     length v + length (filter (\<lambda>c. c = CHR ''%'' \<or> c = CHR ''_'') v)"
  by (induction v) (simp_all add: spec_wildcard_def)

lemma length_plain:
  "length (concat (map (\<lambda>c. if c = CHR ''*'' then ''%'' else if c = CHR ''?'' then ''_'' else [c]) v))
     = length v"
  by (induction v) simp_all

text \<open>The test that guards the ESCAPE clause holds exactly for values with a \<open>%\<close> or a \<open>_\<close>.\<close>

lemma escape_needed_iff:
  "translateKnimeWildcardToSQL (JStr v) \<noteq>
     replace_all (CHR ''?'') ''_'' (replace_all (CHR ''*'') ''%'' v)
   \<longleftrightarrow> CHR ''%'' \<in> set v \<or> CHR ''_'' \<in> set v"
proof (cases "filter (\<lambda>c. c = CHR ''%'' \<or> c = CHR ''_'') v = []")
  case True
  then have none: "\<forall>c \<in> set v. c \<noteq> CHR ''%'' \<and> c \<noteq> CHR ''_''"
    by (simp add: filter_empty_conv)
  then have "map spec_wildcard v =
      map (\<lambda>c. if c = CHR ''*'' then ''%'' else if c = CHR ''?'' then ''_'' else [c]) v"
    by (intro map_cong) (auto simp: spec_wildcard_def)
  then show ?thesis using none by (auto simp only: translate_charwise plain_charwise)
next
  case False
  then have some: "CHR ''%'' \<in> set v \<or> CHR ''_'' \<in> set v"
    by (auto simp: filter_empty_conv)
  from False have "length (concat (map spec_wildcard v)) \<noteq> length v"
    by (simp add: length_translate)
  then have "concat (map spec_wildcard v) \<noteq>
      concat (map (\<lambda>c. if c = CHR ''*'' then ''%'' else if c = CHR ''?'' then ''_'' else [c]) v)"
    using length_plain [of v] by metis
  then show ?thesis using some by (simp only: translate_charwise plain_charwise) simp
qed

text \<open>The pre-escaping step changes a value exactly when the value has a \<open>%\<close> or a \<open>_\<close>.\<close>

lemma pre_escape_changes_iff:
  "replace_all (CHR ''_'') [CHR 0x5C, CHR ''_''] (replace_all (CHR ''%'') [CHR 0x5C, CHR ''%''] v) \<noteq> v
   \<longleftrightarrow> CHR ''%'' \<in> set v \<or> CHR ''_'' \<in> set v"
proof -
  let ?f = "\<lambda>c. if c = CHR ''%'' then [CHR 0x5C, CHR ''%'']
                 else if c = CHR ''_'' then [CHR 0x5C, CHR ''_''] else [c]"
  have cw: "replace_all (CHR ''_'') [CHR 0x5C, CHR ''_'']
              (replace_all (CHR ''%'') [CHR 0x5C, CHR ''%''] u) = concat (map ?f u)" for u
    by (induction u) simp_all
  have len: "length (concat (map ?f u)) =
               length u + length (filter (\<lambda>c. c = CHR ''%'' \<or> c = CHR ''_'') u)" for u
    by (induction u) simp_all
  show ?thesis
  proof (cases "filter (\<lambda>c. c = CHR ''%'' \<or> c = CHR ''_'') v = []")
    case True
    then have none: "\<forall>c \<in> set v. c \<noteq> CHR ''%'' \<and> c \<noteq> CHR ''_''"
      by (simp add: filter_empty_conv)
    then have "map ?f v = map (\<lambda>c. [c]) v" by (intro map_cong) auto
    then have "concat (map ?f v) = v" by (simp only:) simp
    then show ?thesis using none by (auto simp only: cw)
  next
    case False
    then have some: "CHR ''%'' \<in> set v \<or> CHR ''_'' \<in> set v"
      by (auto simp: filter_empty_conv)
    from False have "length (concat (map ?f v)) \<noteq> length v" by (simp only: len) simp
    then have "concat (map ?f v) \<noteq> v" by auto
    then show ?thesis using some by (simp only: cw) simp
  qed
qed

lemma rf_value_condition_like:
  assumes "findConfigByKey valuesConfig ''0'' = Some singleValueConfig"
      and "present (cfg_config singleValueConfig)"
      and "getEntryValue (cfg_entry singleValueConfig) ''value'' = JStr v"
      and "typeIdentifierConfig = findConfigByKey (cfg_config singleValueConfig) ''typeIdentifier''"
      and "getEntryValue (opt_entry typeIdentifierConfig) ''is_null'' \<noteq> JBool True"
      and "js_includes (getEntryValue (opt_entry typeIdentifierConfig) ''cell_class'') ''StringCell''
             = Inr isStringType"
  shows "rf_value_condition (JStr c) ''LIKE'' valuesConfig =
           Inr (Some
             ((if (isStringType \<or> \<not> numeric_string v) \<and>
                  getEntryValue (opt_entry (findConfigByKey (cfg_config singleValueConfig)
                                   ''stringCaseMatching'')) ''caseMatching'' \<noteq> JStr ''CASESENSITIVE''
               then ''LOWER('' @ quote_ident c @ '') LIKE LOWER('' @
                    quote_literal (concat (map spec_wildcard v)) @ '')''
               else quote_ident c @ '' LIKE '' @ quote_literal (concat (map spec_wildcard v))) @
              (if CHR ''%'' \<in> set v \<or> CHR ''_'' \<in> set v then like_escape else [])))"
proof -
  have p: "present (cfg_entry singleValueConfig)"
    using assms(3) getEntryValue_present [of "cfg_entry singleValueConfig" "''value''"] by simp
  show ?thesis
    unfolding rf_value_condition_def
    using assms(5) escape_needed_iff [of v]
    by (simp add: assms(1,2,3,6) assms(4) [symmetric] p quote_value_def quote_ident_def
          translate_charwise [symmetric] like_escape_def Let_def
          del: translateKnimeWildcardToSQL.simps)
qed

text \<open>
  Claim C6: for a LIKE predicate with a string value \<open>v\<close>, the pattern is \<open>v\<close> with every
  literal \<open>%\<close> and \<open>_\<close> escaped and then \<open>*\<close> replaced by \<open>%\<close> and \<open>?\<close> by \<open>_\<close>; the pre-escaping
  changes \<open>v\<close> exactly when \<open>v\<close> has a \<open>%\<close> or a \<open>_\<close>; and the condition of the predicate is the
  comparison (with or without \<open>LOWER\<close>) followed by the ESCAPE clause exactly in that case.
  The hypotheses describe the predicate: column, operator \<open>LIKE\<close>, value configuration under
  key \<open>0\<close> whose \<open>is_null\<close> is not true and whose \<open>cell_class\<close> is a string or missing.
\<close>

theorem like_escape_clause:
  assumes "findConfigByKey (cfg_config p) ''column'' = Some columnNode"
      and "findEntryByKey (cfg_entry p) ''operator'' = Some operatorEntry"
      and "findConfigByKey (cfg_config p) ''predicateValues'' = Some predicateValuesNode"
      and "getEntryValue (cfg_entry columnNode) ''selected'' = JStr c"
      and "entry_value operatorEntry = Inr (Some ''LIKE'')"
      and "findConfigByKey (cfg_config predicateValuesNode) ''values'' = Some valuesNode"
      and "findConfigByKey (cfg_config valuesNode) ''0'' = Some singleValueConfig"
      and "present (cfg_config singleValueConfig)"
      and "getEntryValue (cfg_entry singleValueConfig) ''value'' = JStr v"
      and "typeIdentifierConfig = findConfigByKey (cfg_config singleValueConfig) ''typeIdentifier''"
      and "getEntryValue (opt_entry typeIdentifierConfig) ''is_null'' \<noteq> JBool True"
      and "js_includes (getEntryValue (opt_entry typeIdentifierConfig) ''cell_class'') ''StringCell''
             = Inr isStringType"
  shows "translateKnimeWildcardToSQL (JStr v) = concat (map spec_wildcard v) \<and>
         (replace_all (CHR ''_'') [CHR 0x5C, CHR ''_'']
            (replace_all (CHR ''%'') [CHR 0x5C, CHR ''%''] v) \<noteq> v
          \<longleftrightarrow> CHR ''%'' \<in> set v \<or> CHR ''_'' \<in> set v) \<and>
         rf_predicate p =
           Inr (Some
             ((if (isStringType \<or> \<not> numeric_string v) \<and>
                  getEntryValue (opt_entry (findConfigByKey (cfg_config singleValueConfig)
                                   ''stringCaseMatching'')) ''caseMatching'' \<noteq> JStr ''CASESENSITIVE''
               then ''LOWER('' @ quote_ident c @ '') LIKE LOWER('' @
                    quote_literal (translateKnimeWildcardToSQL (JStr v)) @ '')''
               else quote_ident c @ '' LIKE '' @ quote_literal (translateKnimeWildcardToSQL (JStr v))) @
              (if CHR ''%'' \<in> set v \<or> CHR ''_'' \<in> set v then like_escape else [])))"
proof -
  have pv: "present (cfg_config valuesNode)" using assms(7) by (rule findConfigByKey_present)
  have op: "mapKnimeOperatorToSQL ''LIKE'' = ''LIKE''" by (simp add: mapKnimeOperatorToSQL_def)
  have "rf_predicate p = rf_value_condition (JStr c) ''LIKE'' (cfg_config valuesNode)"
    using rf_predicate_value [OF assms(1,2,3,4,5) _ assms(6) pv] by (simp add: op)
  then show ?thesis
    using rf_value_condition_like [OF assms(7,8,9,10,11,12), of c] pre_escape_changes_iff [of v]
    by (simp only: translate_charwise)
qed

theorem like_escape_clause_witness:
  "rf_predicate (example_predicate ''0'' ''name'' ''LIKE''
       (example_value ''xstring'' ''a*b_c'' ''org.knime.core.data.def.StringCell'' ''false''))
     = Inr (Some (''LOWER(\"name\") LIKE LOWER('a%b'' @ [CHR 0x5C] @ ''_c') ESCAPE '' @
                  [CHR 0x27, CHR 0x5C, CHR 0x27]))"
proof -
  let ?v = "example_value ''xstring'' ''a*b_c'' ''org.knime.core.data.def.StringCell'' ''false''"
  let ?p = "example_predicate ''0'' ''name'' ''LIKE'' ?v"
  have "rf_predicate ?p = Inr (Some
      ((if (True \<or> \<not> numeric_string ''a*b_c'') \<and>
            getEntryValue (opt_entry (findConfigByKey (cfg_config ?v) ''stringCaseMatching''))
              ''caseMatching'' \<noteq> JStr ''CASESENSITIVE''
        then ''LOWER('' @ quote_ident ''name'' @ '') LIKE LOWER('' @
             quote_literal (translateKnimeWildcardToSQL (JStr ''a*b_c'')) @ '')''
        else quote_ident ''name'' @ '' LIKE '' @
             quote_literal (translateKnimeWildcardToSQL (JStr ''a*b_c''))) @
       (if CHR ''%'' \<in> set ''a*b_c'' \<or> CHR ''_'' \<in> set ''a*b_c'' then like_escape else [])))"
    by (rule like_escape_clause [
          where columnNode = "xml_config ''column'' (Single (xml_entry ''selected'' ''xstring'' ''name'')) Absent"
            and operatorEntry = "xml_entry ''operator'' ''xstring'' ''LIKE''"
            and predicateValuesNode = "xml_config ''predicateValues'' Absent (Single (xml_config ''values'' Absent (Single ?v)))"
            and valuesNode = "xml_config ''values'' Absent (Single ?v)"
            and singleValueConfig = ?v
            and typeIdentifierConfig = "findConfigByKey (cfg_config ?v) ''typeIdentifier''",
          THEN conjunct2, THEN conjunct2])
       (simp_all add: example_defs accessor_defs starts_with_def)
  then show ?thesis
    by (simp add: example_defs accessor_defs quote_ident_def quote_literal_def like_escape_def)
qed

subsection \<open>Values marked as null\<close>

lemma rf_value_condition_is_null:
  assumes "findConfigByKey valuesConfig ''0'' = Some singleValueConfig"
      and "present (cfg_entry singleValueConfig)"
      and "present (cfg_config singleValueConfig)"
      and "getEntryValue (opt_entry (findConfigByKey (cfg_config singleValueConfig) ''typeIdentifier''))
             ''is_null'' = JBool True"
  shows "rf_value_condition (JStr c) sqlOperator valuesConfig = Inr (Some (quote_ident c @ '' IS NULL''))"
  unfolding rf_value_condition_def
  by (simp add: assms quote_value_def quote_ident_def)

lemma operator_is_not_null:
  "mapKnimeOperatorToSQL op = ''IS NOT NULL'' \<longleftrightarrow> op = ''IS_NOT_MISSING''"
  by (simp add: mapKnimeOperatorToSQL_def)

text \<open>
  Claim C10, as stated, lets the condition be \<open>IS NULL\<close> whatever operator the predicate
  declares. A predicate that declares \<open>IS_NOT_MISSING\<close> is answered before its value
  configuration is read: with \<open>is_null = true\<close> in that configuration the condition is
  still \<open>IS NOT NULL\<close>.
\<close>

theorem is_null_operator_counterexample:
  "getEntryValue
     (opt_entry (findConfigByKey
        (cfg_config (example_value ''xstring'' ''5'' ''org.knime.core.data.def.IntCell'' ''true''))
        ''typeIdentifier'')) ''is_null'' = JBool True \<and>
   rf_predicate (example_predicate ''0'' ''colA'' ''IS_NOT_MISSING''
       (example_value ''xstring'' ''5'' ''org.knime.core.data.def.IntCell'' ''true''))
     = Inr (Some ''\"colA\" IS NOT NULL'') \<and>
   convertRowFilterNodeToSQL
       (example_row_filter ''MATCHING'' ''AND''
          [example_predicate ''0'' ''colA'' ''IS_NOT_MISSING''
             (example_value ''xstring'' ''5'' ''org.knime.core.data.def.IntCell'' ''true'')])
       (Some ''t'')
     = Inr ''SELECT * FROM \"t\" WHERE \"colA\" IS NOT NULL;''"
  by (simp add: example_defs accessor_defs rf_predicate_def mapKnimeOperatorToSQL_def
        quote_value_def quote_ident_def convertRowFilterNodeToSQL_def ROW_FILTER_FACTORY_def)

text \<open>
  Claim C10, amended: for a predicate with a string column name and a declared operator,
  whose value configuration under key \<open>0\<close> has \<open>is_null = true\<close> in its type identifier,
  the condition is \<open><quoted column> IS NULL\<close> for every declared operator other than
  \<open>IS_NOT_MISSING\<close>, whatever the literal value; for \<open>IS_NOT_MISSING\<close> it is
  \<open><quoted column> IS NOT NULL\<close>.
\<close>

theorem is_null_value_condition:
  assumes "findConfigByKey (cfg_config p) ''column'' = Some columnNode"
      and "findEntryByKey (cfg_entry p) ''operator'' = Some operatorEntry"
      and "findConfigByKey (cfg_config p) ''predicateValues'' = Some predicateValuesNode"
      and "getEntryValue (cfg_entry columnNode) ''selected'' = JStr c"
      and "entry_value operatorEntry = Inr (Some op)"
      and "op \<noteq> []"
      and "findConfigByKey (cfg_config predicateValuesNode) ''values'' = Some valuesNode"
      and "findConfigByKey (cfg_config valuesNode) ''0'' = Some singleValueConfig"
      and "present (cfg_entry singleValueConfig)"
      and "present (cfg_config singleValueConfig)"
      and "getEntryValue (opt_entry (findConfigByKey (cfg_config singleValueConfig) ''typeIdentifier''))
             ''is_null'' = JBool True"
  shows "rf_predicate p =
           Inr (Some (quote_ident c @
                      (if op = ''IS_NOT_MISSING'' then '' IS NOT NULL'' else '' IS NULL'')))"
proof -
  have pv: "present (cfg_config valuesNode)" using assms(8) by (rule findConfigByKey_present)
  note pred = rf_predicate_value [OF assms(1,2,3,4,5,6,7) pv]
  show ?thesis
  proof (cases "mapKnimeOperatorToSQL op = ''IS NULL'' \<or> mapKnimeOperatorToSQL op = ''IS NOT NULL''")
    case True
    then show ?thesis using pred by (auto simp: operator_is_not_null)
  next
    case False
    then have "op \<noteq> ''IS_NOT_MISSING''" by (simp add: operator_is_not_null)
    then show ?thesis
      using pred False
        rf_value_condition_is_null [OF assms(8,9,10,11), of c "mapKnimeOperatorToSQL op"]
      by simp
  qed
qed

theorem is_null_value_condition_witness:
  "rf_predicate (example_predicate ''0'' ''colA'' ''GT''
       (example_value ''xstring'' ''5'' ''org.knime.core.data.def.IntCell'' ''true''))
     = Inr (Some ''\"colA\" IS NULL'')"
proof -
  let ?v = "example_value ''xstring'' ''5'' ''org.knime.core.data.def.IntCell'' ''true''"
  let ?p = "example_predicate ''0'' ''colA'' ''GT'' ?v"
  have "rf_predicate ?p =
          Inr (Some (quote_ident ''colA'' @
                     (if ''GT'' = ''IS_NOT_MISSING'' then '' IS NOT NULL'' else '' IS NULL'')))"
    by (rule is_null_value_condition [
          where columnNode = "xml_config ''column'' (Single (xml_entry ''selected'' ''xstring'' ''colA'')) Absent"
            and operatorEntry = "xml_entry ''operator'' ''xstring'' ''GT''"
            and predicateValuesNode = "xml_config ''predicateValues'' Absent (Single (xml_config ''values'' Absent (Single ?v)))"
            and valuesNode = "xml_config ''values'' Absent (Single ?v)"
            and singleValueConfig = ?v])
       (simp_all add: example_defs accessor_defs)
  then show ?thesis by (simp add: quote_ident_def)
qed

section \<open>Properties of the dispatcher\<close>

text \<open>When every entry of a node has attributes, the viewer's accessor returns a string.\<close>

lemma find_entry_strict_total:
  "list_all (\<lambda>e. entry_attributes e \<noteq> None) es \<Longrightarrow> \<exists>r. find_entry_strict es k = Inr r"
  by (induction es) (auto split: option.splits)

lemma viewer_getEntryValue_total:
  assumes "list_all (\<lambda>e. entry_attributes e \<noteq> None) (as_array (opt_entry data))"
  shows "\<exists>v. viewer_getEntryValue data k = Inr v"
proof -
  from find_entry_strict_total [OF assms, of k]
  obtain r where "find_entry_strict (as_array (opt_entry data)) k = Inr r" by blast
  then show ?thesis
    by (auto simp: viewer_getEntryValue_def split: option.splits)
qed

text \<open>
  Claim C3, as stated, gives every diagnostic of the dispatcher the prefix \<open>Error:\<close>. For a
  node whose factory identifier has no translator the dispatcher returns its fixed text,
  which does not start with \<open>Error:\<close>.
\<close>

theorem dispatcher_prefix_counterexample:
  "convertSelectedNodeToSQL (\<lambda>c. Inr []) (\<lambda>c p. Inr []) example_unknown_node (Some ''CSV Reader'')
     = Inr ''Conversion for this node type is not supported.'' \<and>
   \<not> is_diagnostic ''Conversion for this node type is not supported.''"
  by (simp add: convertSelectedNodeToSQL_def viewer_getEntryValue_def example_unknown_node_def
        xml_entry_def opt_entry_def not_supported_def is_diagnostic_def starts_with_def
        CSV_READER_FACTORY_def COLUMN_FILTER_FACTORY_def)

text \<open>
  Claim C3, amended: for a node all of whose entries have attributes the dispatcher reads
  the factory identifier without a fault, and for every identifier other than the two it
  has a translator for it returns a fixed text as ordinary data: the text
  "Conversion for this node type is not supported.", or
  "Invalid node configuration: missing factory value." when the identifier is missing or
  empty. Neither text starts with \<open>Error:\<close>.
\<close>

theorem dispatcher_unknown_factory:
  assumes "list_all (\<lambda>e. entry_attributes e \<noteq> None) (as_array (cfg_entry nodeConfig))"
  shows "\<exists>factory.
           viewer_getEntryValue (Some nodeConfig) ''factory'' = Inr factory \<and>
           (factory \<noteq> CSV_READER_FACTORY \<and> factory \<noteq> COLUMN_FILTER_FACTORY \<longrightarrow>
              convertSelectedNodeToSQL convertCSVReaderNodeToSQL convertColumnFilterNodeToSQL
                nodeConfig previousNodeName
              = Inr (if factory = [] then ''Invalid node configuration: missing factory value.''
                     else ''Conversion for this node type is not supported.'')) \<and>
           \<not> is_diagnostic ''Invalid node configuration: missing factory value.'' \<and>
           \<not> is_diagnostic ''Conversion for this node type is not supported.''"
proof -
  from assms have "list_all (\<lambda>e. entry_attributes e \<noteq> None) (as_array (opt_entry (Some nodeConfig)))"
    by (simp add: opt_entry_def)
  from viewer_getEntryValue_total [OF this, of "''factory''"]
  obtain factory where f: "viewer_getEntryValue (Some nodeConfig) ''factory'' = Inr factory"
    by blast
  show ?thesis
    by (rule exI [of _ factory])
       (simp add: f convertSelectedNodeToSQL_def not_supported_def missing_factory_def
          is_diagnostic_def starts_with_def)
qed

theorem dispatcher_unknown_factory_witness:
  "convertSelectedNodeToSQL (\<lambda>c. Inr []) (\<lambda>c p. Inr []) example_unknown_node None
     = Inr ''Conversion for this node type is not supported.''"
proof -
  have wf: "list_all (\<lambda>e. entry_attributes e \<noteq> None) (as_array (cfg_entry example_unknown_node))"
    by (simp add: example_unknown_node_def xml_entry_def)
  have f: "viewer_getEntryValue (Some example_unknown_node) ''factory''
             = Inr ''org.knime.base.node.preproc.filter.row3.RowFilterNodeFactory''"
    by (simp add: viewer_getEntryValue_def example_unknown_node_def xml_entry_def opt_entry_def)
  have a: "''org.knime.base.node.preproc.filter.row3.RowFilterNodeFactory'' \<noteq> CSV_READER_FACTORY"
    by (simp add: CSV_READER_FACTORY_def)
  have b: "''org.knime.base.node.preproc.filter.row3.RowFilterNodeFactory'' \<noteq> COLUMN_FILTER_FACTORY"
    by (simp add: COLUMN_FILTER_FACTORY_def)
  from dispatcher_unknown_factory [OF wf, of "\<lambda>c. Inr []" "\<lambda>c p. Inr []" None]
  obtain factory where
    "viewer_getEntryValue (Some example_unknown_node) ''factory'' = Inr factory" and
    "factory \<noteq> CSV_READER_FACTORY \<and> factory \<noteq> COLUMN_FILTER_FACTORY \<longrightarrow>
       convertSelectedNodeToSQL (\<lambda>c. Inr []) (\<lambda>c p. Inr []) example_unknown_node None
       = Inr (if factory = [] then ''Invalid node configuration: missing factory value.''
              else ''Conversion for this node type is not supported.'')"
    by blast
  with f a b show ?thesis by simp
qed

section \<open>Properties of the Sorter translator\<close>

lemma sorter_term_kept:
  assumes "criterion_kept c" and "criterion_column c = JStr s"
  shows "sorter_term missingToEnd c =
           Inr (Some (quote_ident s @ '' '' @
                (if getEntryValue (cfg_entry c) ''sortingOrder'' = JStr ''DESCENDING''
                 then ''DESC'' else ''ASC'') @ '' '' @
                (if missingToEnd = JBool True then ''NULLS LAST'' else ''NULLS FIRST'') @
                (if getEntryValue (cfg_entry c) ''stringComparison'' = JStr ''ALPHANUMERIC''
                 then '' -- Note: Alphanumeric string comparison requested for '' @ s @
                      ''. Standard ORDER BY used; verify behavior with DB.''
                 else [])))"
  using assms
  by (auto simp: sorter_term_def criterion_kept_def criterion_column_def Let_def
        quote_value_def quote_ident_def sort_direction_def nulls_order_def sorter_comment_def
        split: option.splits)

lemma sorter_term_skipped:
  assumes "\<not> criterion_kept c"
  shows "sorter_term missingToEnd c = Inr None"
  using assms
  by (auto simp: sorter_term_def criterion_kept_def criterion_column_def Let_def
        split: option.splits)

lemma sorter_terms_kept:
  assumes "\<forall>c \<in> set cs. criterion_kept c \<longrightarrow> (\<exists>s. criterion_column c = JStr s)"
  shows "sorter_terms missingToEnd cs =
           Inr (map (\<lambda>c. quote_ident (to_string (criterion_column c)) @ '' '' @
                      (if getEntryValue (cfg_entry c) ''sortingOrder'' = JStr ''DESCENDING''
                       then ''DESC'' else ''ASC'') @ '' '' @
                      (if missingToEnd = JBool True then ''NULLS LAST'' else ''NULLS FIRST'') @
                      (if getEntryValue (cfg_entry c) ''stringComparison'' = JStr ''ALPHANUMERIC''
                       then '' -- Note: Alphanumeric string comparison requested for '' @
                            to_string (criterion_column c) @
                            ''. Standard ORDER BY used; verify behavior with DB.''
                       else []))
                 (filter criterion_kept cs))"
  using assms
proof (induction cs)
  case Nil
  then show ?case by simp
next
  case (Cons c cs)
  show ?case
  proof (cases "criterion_kept c")
    case False
    with Cons show ?thesis by (simp add: sorter_term_skipped)
  next
    case True
    with Cons.prems obtain s where s: "criterion_column c = JStr s" by auto
    from Cons have "sorter_terms missingToEnd cs = Inr (map (\<lambda>c. quote_ident (to_string (criterion_column c)) @ '' '' @
                      (if getEntryValue (cfg_entry c) ''sortingOrder'' = JStr ''DESCENDING''
                       then ''DESC'' else ''ASC'') @ '' '' @
                      (if missingToEnd = JBool True then ''NULLS LAST'' else ''NULLS FIRST'') @
                      (if getEntryValue (cfg_entry c) ''stringComparison'' = JStr ''ALPHANUMERIC''
                       then '' -- Note: Alphanumeric string comparison requested for '' @
                            to_string (criterion_column c) @
                            ''. Standard ORDER BY used; verify behavior with DB.''
                       else []))
                 (filter criterion_kept cs))"
      by simp
    then show ?thesis
      by (simp add: True s sorter_term_kept [OF True s])
  qed
qed

lemma convertSorterNodeToSQL_terms:
  assumes "getEntryValue (cfg_entry nodeConfig) ''factory'' = JStr SORTER_FACTORY"
      and "findConfigByKey (cfg_config nodeConfig) ''model'' = Some modelNode"
      and "present (cfg_entry modelNode)"
      and "findConfigByKey (cfg_config modelNode) ''sortingCriteria'' = Some sortingCriteriaNode"
      and "present (cfg_config sortingCriteriaNode)"
      and "sorter_terms (getEntryValue (cfg_entry modelNode) ''missingToEnd'')
             (as_array (cfg_config sortingCriteriaNode)) = Inr orderByParts"
  shows "convertSorterNodeToSQL nodeConfig previousNodeName =
           Inr (if orderByParts = []
                then ''SELECT * FROM '' @ quote_ident (default_input previousNodeName) @
                     ''; -- Warning: No valid sorting criteria processed''
                else ''SELECT *\<newline>FROM '' @ quote_ident (default_input previousNodeName) @
                     ''\<newline>ORDER BY\<newline>  '' @ join '',\<newline>  '' orderByParts @ '';'')"
proof -
  have "present (cfg_config modelNode)" using assms(4) by (rule findConfigByKey_present)
  then show ?thesis
    unfolding convertSorterNodeToSQL_def
    by (simp add: assms sorter_no_valid_criteria_def)
qed

text \<open>
  Claim C9, as stated, gives every ORDER BY term the form
  \<open><column> ASC|DESC NULLS FIRST|LAST\<close>. A criterion that asks for alphanumeric comparison
  gets a term that goes on with an advisory comment, so it is none of the four texts of
  that form for its column.
\<close>

theorem alphanumeric_term_counterexample:
  "sorter_terms (JBool True) [example_criterion ''0'' ''name'' ''ASCENDING'' ''ALPHANUMERIC'']
     = Inr [''\"name\" ASC NULLS LAST -- Note: Alphanumeric string comparison requested for name. Standard ORDER BY used; verify behavior with DB.''] \<and>
   ''\"name\" ASC NULLS LAST -- Note: Alphanumeric string comparison requested for name. Standard ORDER BY used; verify behavior with DB.''
     \<notin> {''\"name\" ASC NULLS FIRST'', ''\"name\" ASC NULLS LAST'',
         ''\"name\" DESC NULLS FIRST'', ''\"name\" DESC NULLS LAST''}"
  by code_simp

text \<open>
  Claim C9, amended: the loop of the Sorter translator gives every criterion that is not
  skipped exactly one term, in the order of the criteria, and the term is
  \<open><quoted column> ASC|DESC <nulls order>\<close>, followed by the advisory comment exactly when
  the criterion asks for alphanumeric comparison. The nulls order is one text for all
  terms: \<open>NULLS LAST\<close> when the model entry \<open>missingToEnd\<close> is the boolean \<open>true\<close>, otherwise
  \<open>NULLS FIRST\<close>. The output is the ORDER BY query over these terms, or the degraded
  output when every criterion is skipped. The hypotheses describe the settings tree and
  ask that the selected column of every kept criterion is a string.
\<close>

theorem sorter_null_ordering:
  assumes "getEntryValue (cfg_entry nodeConfig) ''factory'' = JStr SORTER_FACTORY"
      and "findConfigByKey (cfg_config nodeConfig) ''model'' = Some modelNode"
      and "present (cfg_entry modelNode)"
      and "findConfigByKey (cfg_config modelNode) ''sortingCriteria'' = Some sortingCriteriaNode"
      and "present (cfg_config sortingCriteriaNode)"
      and "criteriaConfigs = as_array (cfg_config sortingCriteriaNode)"
      and "\<forall>c \<in> set criteriaConfigs. criterion_kept c \<longrightarrow> (\<exists>s. criterion_column c = JStr s)"
      and "missingToEnd = getEntryValue (cfg_entry modelNode) ''missingToEnd''"
      and "nullsOrder = (if missingToEnd = JBool True then ''NULLS LAST'' else ''NULLS FIRST'')"
      and "orderByParts =
             map (\<lambda>c. quote_ident (to_string (criterion_column c)) @ '' '' @
                      (if getEntryValue (cfg_entry c) ''sortingOrder'' = JStr ''DESCENDING''
                       then ''DESC'' else ''ASC'') @ '' '' @ nullsOrder @
                      (if getEntryValue (cfg_entry c) ''stringComparison'' = JStr ''ALPHANUMERIC''
                       then '' -- Note: Alphanumeric string comparison requested for '' @
                            to_string (criterion_column c) @
                            ''. Standard ORDER BY used; verify behavior with DB.''
                       else []))
               (filter criterion_kept criteriaConfigs)"
  shows "sorter_terms missingToEnd criteriaConfigs = Inr orderByParts \<and>
         convertSorterNodeToSQL nodeConfig previousNodeName =
           Inr (if orderByParts = []
                then ''SELECT * FROM '' @ quote_ident (default_input previousNodeName) @
                     ''; -- Warning: No valid sorting criteria processed''
                else ''SELECT *\<newline>FROM '' @ quote_ident (default_input previousNodeName) @
                     ''\<newline>ORDER BY\<newline>  '' @ join '',\<newline>  '' orderByParts @ '';'')"
proof -
  have t: "sorter_terms missingToEnd criteriaConfigs = Inr orderByParts"
    unfolding assms(10) assms(9) by (rule sorter_terms_kept [OF assms(7)])
  then have "sorter_terms (getEntryValue (cfg_entry modelNode) ''missingToEnd'')
             (as_array (cfg_config sortingCriteriaNode)) = Inr orderByParts"
    by (simp only: assms(6) assms(8))
  from convertSorterNodeToSQL_terms [OF assms(1-5) this] t show ?thesis by blast
qed

theorem sorter_null_ordering_witness:
  "convertSorterNodeToSQL
     (example_sorter ''true''
        (Many [example_criterion ''0'' ''age'' ''DESCENDING'' ''NATURAL'',
               example_criterion ''x'' ''skipped'' ''ASCENDING'' ''NATURAL'',
               example_criterion ''1'' ''name'' ''ASCENDING'' ''NATURAL''])) None
   = Inr (''SELECT *\<newline>FROM \"input_table\"\<newline>ORDER BY\<newline>  \"age\" DESC NULLS LAST,\<newline>  \"name\" ASC NULLS LAST;'')"
proof -
  let ?cs = "[example_criterion ''0'' ''age'' ''DESCENDING'' ''NATURAL'',
              example_criterion ''x'' ''skipped'' ''ASCENDING'' ''NATURAL'',
              example_criterion ''1'' ''name'' ''ASCENDING'' ''NATURAL'']"
  let ?n = "example_sorter ''true'' (Many ?cs)"
  let ?sc = "xml_config ''sortingCriteria'' Absent (Many ?cs)"
  let ?m = "xml_config ''model''
                (Many [xml_entry ''missingToEnd'' ''xboolean'' ''true'',
                       xml_entry ''sortInMemory'' ''xboolean'' ''false''])
                (Single ?sc)"
  let ?parts = "[''\"age\" DESC NULLS LAST'', ''\"name\" ASC NULLS LAST'']"
  have 1: "getEntryValue (cfg_entry ?n) ''factory'' = JStr SORTER_FACTORY" by code_simp
  have 2: "findConfigByKey (cfg_config ?n) ''model'' = Some ?m" by code_simp
  have 3: "present (cfg_entry ?m)" by code_simp
  have 4: "findConfigByKey (cfg_config ?m) ''sortingCriteria'' = Some ?sc" by code_simp
  have 5: "present (cfg_config ?sc)" by code_simp
  have 6: "?cs = as_array (cfg_config ?sc)" by code_simp
  have 7: "\<forall>c \<in> set ?cs. criterion_kept c \<longrightarrow> (\<exists>s. criterion_column c = JStr s)"
  proof -
    have "map criterion_column ?cs = [JStr ''age'', JStr ''skipped'', JStr ''name'']"
      by code_simp
    then show ?thesis by simp
  qed
  have 8: "JBool True = getEntryValue (cfg_entry ?m) ''missingToEnd''" by code_simp
  have 9: "''NULLS LAST'' = (if JBool True = JBool True then ''NULLS LAST'' else ''NULLS FIRST'')"
    by simp
  have 10: "?parts =
             map (\<lambda>c. quote_ident (to_string (criterion_column c)) @ '' '' @
                      (if getEntryValue (cfg_entry c) ''sortingOrder'' = JStr ''DESCENDING''
                       then ''DESC'' else ''ASC'') @ '' '' @ ''NULLS LAST'' @
                      (if getEntryValue (cfg_entry c) ''stringComparison'' = JStr ''ALPHANUMERIC''
                       then '' -- Note: Alphanumeric string comparison requested for '' @
                            to_string (criterion_column c) @
                            ''. Standard ORDER BY used; verify behavior with DB.''
                       else []))
               (filter criterion_kept ?cs)"
    by code_simp
  from sorter_null_ordering [OF 1 2 3 4 5 6 7 8 9 10, of None]
  have "convertSorterNodeToSQL ?n None =
           Inr (if ?parts = []
                then ''SELECT * FROM '' @ quote_ident (default_input None) @
                     ''; -- Warning: No valid sorting criteria processed''
                else ''SELECT *\<newline>FROM '' @ quote_ident (default_input None) @
                     ''\<newline>ORDER BY\<newline>  '' @ join '',\<newline>  '' ?parts @ '';'')"
    by blast
  then show ?thesis by (simp add: quote_ident_def default_input_def)
qed

section \<open>The end of the output text\<close>

lemma is_diagnostic_Error [simp]:
  "is_diagnostic (CHR ''E'' # CHR ''r'' # CHR ''r'' # CHR ''o'' # CHR ''r'' # CHR '':'' # rest)"
  by (simp add: is_diagnostic_def starts_with_def)

lemma rf_output_cases:
  "case convertRowFilterNodeToSQL nodeConfig previousNodeName of
     Inl e \<Rightarrow> True
   | Inr s \<Rightarrow>
       is_diagnostic s \<or> last s = CHR '';'' \<or>
       (\<exists>p. previousNodeName = Some p \<and>
            s = ''SELECT * FROM '' @ quote_ident p @ '';'' @
                '' -- Warning: No valid filter conditions generated or applied'')"
  by (simp add: convertRowFilterNodeToSQL_def Let_def rf_degraded_def rf_missing_parameters_def
        split: option.split sum.split)

lemma sorter_output_cases:
  "case convertSorterNodeToSQL nodeConfig previousNodeName of
     Inl e \<Rightarrow> True
   | Inr s \<Rightarrow>
       is_diagnostic s \<or> last s = CHR '';'' \<or>
       s = ''SELECT * FROM '' @ quote_ident (default_input previousNodeName) @ '';'' @
           '' -- Warning: No sorting criteria found'' \<or>
       s = ''SELECT * FROM '' @ quote_ident (default_input previousNodeName) @ '';'' @
           '' -- Warning: No valid sorting criteria processed''"
  by (simp add: convertSorterNodeToSQL_def Let_def sorter_no_criteria_def
        sorter_no_valid_criteria_def split: option.split sum.split)

lemma gb_query_end: "is_diagnostic (gb_query g a p) \<or> last (gb_query g a p) = CHR '';''"
  by (simp add: gb_query_def Let_def)

lemma groupby_output_cases:
  "case convertGroupByNodeToSQL getArrayValuesFromConfig nodeConfig previousNodeName of
     Inl e \<Rightarrow> True
   | Inr s \<Rightarrow> is_diagnostic s \<or> last s = CHR '';''"
  using gb_query_end
  by (simp add: convertGroupByNodeToSQL_def Let_def split: option.split sum.split)

lemma concatenate_output_cases:
  "case convertConcatenateNodeToSQL stringify stringify_pred nodeConfig predecessorNodeContext of
     Inl e \<Rightarrow> True
   | Inr s \<Rightarrow> is_diagnostic s \<or> last s = CHR '';''"
  by (simp add: convertConcatenateNodeToSQL_def Let_def
        split: option.split sum.split predecessors.split prod.split)

text \<open>
  Claim C2, as stated, lets every successful output end in \<open>;\<close>, the degraded outputs
  included. The Row Filter output without a valid predicate and the Sorter output without
  a valid criterion end in a warning comment that follows the \<open>;\<close>.
\<close>

theorem degraded_output_counterexample:
  "convertRowFilterNodeToSQL
       (example_row_filter ''MATCHING'' ''AND'' [xml_config ''0'' Absent Absent]) (Some ''t'')
     = Inr ''SELECT * FROM \"t\"; -- Warning: No valid filter conditions generated or applied'' \<and>
   \<not> is_diagnostic ''SELECT * FROM \"t\"; -- Warning: No valid filter conditions generated or applied'' \<and>
   last ''SELECT * FROM \"t\"; -- Warning: No valid filter conditions generated or applied'' \<noteq> CHR '';'' \<and>
   convertSorterNodeToSQL (example_sorter ''true'' (Many [])) None
     = Inr ''SELECT * FROM \"input_table\"; -- Warning: No valid sorting criteria processed'' \<and>
   \<not> is_diagnostic ''SELECT * FROM \"input_table\"; -- Warning: No valid sorting criteria processed'' \<and>
   last ''SELECT * FROM \"input_table\"; -- Warning: No valid sorting criteria processed'' \<noteq> CHR '';''"
  by code_simp

text \<open>
  Claim C2, amended: a text returned by the Row Filter, Sorter, GroupBy or Concatenate
  translator is a diagnostic starting with \<open>Error:\<close>, or ends in \<open>;\<close>, or is one of the three
  degraded outputs \<open>SELECT * FROM <quoted input>;\<close> followed by a warning comment (Row Filter
  without a valid condition, Sorter without criteria, Sorter without a valid criterion).
\<close>

theorem successful_output_termination:
  "(convertRowFilterNodeToSQL nodeConfig previousNodeName = Inr s \<longrightarrow>
      is_diagnostic s \<or> last s = CHR '';'' \<or>
      (\<exists>p. previousNodeName = Some p \<and>
           s = ''SELECT * FROM '' @ quote_ident p @ '';'' @
               '' -- Warning: No valid filter conditions generated or applied'')) \<and>
   (convertSorterNodeToSQL nodeConfig previousNodeName = Inr s \<longrightarrow>
      is_diagnostic s \<or> last s = CHR '';'' \<or>
      s = ''SELECT * FROM '' @ quote_ident (default_input previousNodeName) @ '';'' @
          '' -- Warning: No sorting criteria found'' \<or>
      s = ''SELECT * FROM '' @ quote_ident (default_input previousNodeName) @ '';'' @
          '' -- Warning: No valid sorting criteria processed'') \<and>
   (convertGroupByNodeToSQL getArrayValuesFromConfig nodeConfig previousNodeName = Inr s \<longrightarrow>
      is_diagnostic s \<or> last s = CHR '';'') \<and>
   (convertConcatenateNodeToSQL stringify stringify_pred nodeConfig predecessorNodeContext = Inr s \<longrightarrow>
      is_diagnostic s \<or> last s = CHR '';'')"
proof (intro conjI impI)
  assume "convertRowFilterNodeToSQL nodeConfig previousNodeName = Inr s"
  with rf_output_cases [where nodeConfig = nodeConfig and previousNodeName = previousNodeName]
  show "is_diagnostic s \<or> last s = CHR '';'' \<or>
      (\<exists>p. previousNodeName = Some p \<and>
           s = ''SELECT * FROM '' @ quote_ident p @ '';'' @
               '' -- Warning: No valid filter conditions generated or applied'')"
    by simp
next
  assume "convertSorterNodeToSQL nodeConfig previousNodeName = Inr s"
  with sorter_output_cases [where nodeConfig = nodeConfig and previousNodeName = previousNodeName]
  show "is_diagnostic s \<or> last s = CHR '';'' \<or>
      s = ''SELECT * FROM '' @ quote_ident (default_input previousNodeName) @ '';'' @
          '' -- Warning: No sorting criteria found'' \<or>
      s = ''SELECT * FROM '' @ quote_ident (default_input previousNodeName) @ '';'' @
          '' -- Warning: No valid sorting criteria processed''"
    by simp
next
  assume "convertGroupByNodeToSQL getArrayValuesFromConfig nodeConfig previousNodeName = Inr s"
  with groupby_output_cases [where getArrayValuesFromConfig = getArrayValuesFromConfig
      and nodeConfig = nodeConfig and previousNodeName = previousNodeName]
  show "is_diagnostic s \<or> last s = CHR '';''" by simp
next
  assume "convertConcatenateNodeToSQL stringify stringify_pred nodeConfig predecessorNodeContext = Inr s"
  with concatenate_output_cases [where stringify = stringify and stringify_pred = stringify_pred
      and nodeConfig = nodeConfig and predecessorNodeContext = predecessorNodeContext]
  show "is_diagnostic s \<or> last s = CHR '';''" by simp
qed

theorem successful_output_termination_witness:
  "last ''SELECT * FROM \"t\" WHERE \"colA\" IS NOT NULL;'' = CHR '';'' \<and>
   last ''SELECT *\<newline>FROM \"input_table\"\<newline>ORDER BY\<newline>  \"age\" DESC NULLS LAST;'' = CHR '';'' \<and>
   last ''SELECT\<newline>  \"region\",\<newline>  SUM(\"sales\") AS \"Sum_sales\"\<newline>FROM \"t\"\<newline>GROUP BY\<newline>  \"region\";'' = CHR '';'' \<and>
   last ''-- Concatenate Node Conversion (using UNION ALL)\<newline>-- Mode: Union of columns (default)\<newline>SELECT\<newline>    \"left\".\"a\",\<newline>    \"left\".\"b\",\<newline>    NULL AS \"c\"\<newline>  FROM \"left\"\<newline>UNION ALL\<newline>SELECT\<newline>    NULL AS \"a\",\<newline>    \"right\".\"b\",\<newline>    \"right\".\"c\"\<newline>  FROM \"right\";'' = CHR '';''"
proof -
  let ?rf = "''SELECT * FROM \"t\" WHERE \"colA\" IS NOT NULL;''"
  let ?so = "''SELECT *\<newline>FROM \"input_table\"\<newline>ORDER BY\<newline>  \"age\" DESC NULLS LAST;''"
  let ?gb = "''SELECT\<newline>  \"region\",\<newline>  SUM(\"sales\") AS \"Sum_sales\"\<newline>FROM \"t\"\<newline>GROUP BY\<newline>  \"region\";''"
  let ?cc = "''-- Concatenate Node Conversion (using UNION ALL)\<newline>-- Mode: Union of columns (default)\<newline>SELECT\<newline>    \"left\".\"a\",\<newline>    \"left\".\"b\",\<newline>    NULL AS \"c\"\<newline>  FROM \"left\"\<newline>UNION ALL\<newline>SELECT\<newline>    NULL AS \"a\",\<newline>    \"right\".\"b\",\<newline>    \"right\".\"c\"\<newline>  FROM \"right\";''"
  let ?rfc = "example_row_filter ''MATCHING'' ''AND''
          [example_predicate ''0'' ''colA'' ''IS_NOT_MISSING''
             (example_value ''xstring'' ''5'' ''org.knime.core.data.def.IntCell'' ''true'')]"
  let ?soc = "example_sorter ''true'' (Single (example_criterion ''0'' ''age'' ''DESCENDING'' ''NATURAL''))"
  let ?gbc = "example_groupby [''region''] [''sales''] [''Sum''] []"
  have rf: "convertRowFilterNodeToSQL ?rfc (Some ''t'') = Inr ?rf"
    by code_simp
  have so: "convertSorterNodeToSQL ?soc None = Inr ?so"
    by code_simp
  have gb: "convertGroupByNodeToSQL getArrayValuesFromConfig_spec ?gbc (Some ''t'') = Inr ?gb"
    by code_simp
  have cc: "convertConcatenateNodeToSQL (\<lambda>c. []) (\<lambda>p. []) (example_concatenate ''false'')
       (Contexts example_predecessors) = Inr ?cc"
    by code_simp
  have nd: "\<not> is_diagnostic ?rf" "\<not> is_diagnostic ?so" "\<not> is_diagnostic ?gb" "\<not> is_diagnostic ?cc"
    by code_simp+
  have nrf: "\<not> (\<exists>p. Some ''t'' = Some p \<and> ?rf = ''SELECT * FROM '' @ quote_ident p @ '';'' @
               '' -- Warning: No valid filter conditions generated or applied'')"
    by (simp add: quote_ident_def)
  have nso: "?so \<noteq> ''SELECT * FROM '' @ quote_ident (default_input None) @ '';'' @
          '' -- Warning: No sorting criteria found''"
    "?so \<noteq> ''SELECT * FROM '' @ quote_ident (default_input None) @ '';'' @
          '' -- Warning: No valid sorting criteria processed''"
    by simp_all
  from successful_output_termination [where nodeConfig = ?rfc and previousNodeName = "Some ''t''" and s = ?rf] rf nd(1) nrf
  have 1: "last ?rf = CHR '';''" by blast
  from successful_output_termination [where nodeConfig = ?soc and previousNodeName = None and s = ?so] so nd(2) nso
  have 2: "last ?so = CHR '';''" by blast
  from successful_output_termination [where getArrayValuesFromConfig = getArrayValuesFromConfig_spec
      and nodeConfig = ?gbc and previousNodeName = "Some ''t''" and s = ?gb] gb nd(3)
  have 3: "last ?gb = CHR '';''" by blast
  from successful_output_termination [where stringify = "\<lambda>c. []" and stringify_pred = "\<lambda>p. []"
      and nodeConfig = "example_concatenate ''false''"
      and predecessorNodeContext = "Contexts example_predecessors" and s = ?cc] cc nd(4)
  have 4: "last ?cc = CHR '';''" by blast
  from 1 2 3 4 show ?thesis by blast
qed

section \<open>Properties of the GroupBy translator\<close>

lemma join_two: "join sep [a, b] = a @ sep @ b"
  by simp

lemma join_three: "join sep [a, b, c] = a @ sep @ b @ sep @ c"
  by simp

lemma gb_query_shape:
  "gb_query groupingColumns aggregations previousNodeName =
     (if groupingColumns \<noteq> [] \<and> aggregations = []
      then ''SELECT DISTINCT\<newline>  '' @ join '',\<newline>  '' (map quote_ident groupingColumns) @
           ''\<newline>FROM '' @ quote_ident previousNodeName @ '';''
      else if groupingColumns \<noteq> [] \<and> aggregations \<noteq> []
      then ''SELECT\<newline>  '' @ join '',\<newline>  '' (map quote_ident groupingColumns @ aggregations) @
           ''\<newline>FROM '' @ quote_ident previousNodeName @
           ''\<newline>GROUP BY\<newline>  '' @ join '',\<newline>  '' (map quote_ident groupingColumns) @ '';''
      else if aggregations \<noteq> []
      then ''SELECT\<newline>  '' @ join '',\<newline>  '' aggregations @
           ''\<newline>FROM '' @ quote_ident previousNodeName @ '';''
      else ''Error: Cannot generate SELECT clause. No grouping or aggregation columns specified/successful.'')"
  by (simp add: gb_query_def Let_def)

lemma groupby_model_missing:
  assumes "getEntryValue (cfg_entry nodeConfig) ''factory'' = JStr GROUPBY_FACTORY"
      and "findConfigByKey (cfg_config nodeConfig) ''model'' = None \<or>
           (findConfigByKey (cfg_config nodeConfig) ''model'' = Some modelNode \<and>
            (\<not> present (cfg_config modelNode) \<or> \<not> present (cfg_entry modelNode)))"
  shows "convertGroupByNodeToSQL getArrayValuesFromConfig nodeConfig previousNodeName =
           Inr ''Error: Model configuration not found or invalid.''"
  using assms(2)
  by (auto simp: convertGroupByNodeToSQL_def assms(1))

lemma groupby_model_found:
  assumes "getEntryValue (cfg_entry nodeConfig) ''factory'' = JStr GROUPBY_FACTORY"
      and "findConfigByKey (cfg_config nodeConfig) ''model'' = Some modelNode"
      and "present (cfg_config modelNode)"
      and "present (cfg_entry modelNode)"
      and "gb_model_aggregations getArrayValuesFromConfig modelNode = Inr aggregations"
  shows "convertGroupByNodeToSQL getArrayValuesFromConfig nodeConfig previousNodeName =
          Inr (gb_query (gb_grouping_columns getArrayValuesFromConfig modelNode) aggregations
                 (default_input previousNodeName))"
  by (simp add: convertGroupByNodeToSQL_def assms)

text \<open>
  Claim C7: for a GroupBy settings tree with the expected factory, a model node with
  entries and children, grouping columns \<open>groupingColumns\<close> and successfully mapped
  aggregations \<open>aggregations\<close>: with grouping columns and no aggregation the output is
  \<open>SELECT DISTINCT\<close> over the grouping columns and the input, without GROUP BY; with
  aggregations it selects the grouping columns and the aggregations and groups by the
  grouping columns, and has no GROUP BY clause when there are no grouping columns; with
  neither it is a diagnostic, as it is when the model node is missing or incomplete.
\<close>

theorem groupby_shape:
  assumes "getEntryValue (cfg_entry nodeConfig) ''factory'' = JStr GROUPBY_FACTORY"
  shows
   "(findConfigByKey (cfg_config nodeConfig) ''model'' = Some modelNode \<and>
     present (cfg_config modelNode) \<and> present (cfg_entry modelNode) \<and>
     groupingColumns = gb_grouping_columns getArrayValuesFromConfig modelNode \<and>
     gb_model_aggregations getArrayValuesFromConfig modelNode = Inr aggregations \<longrightarrow>
     convertGroupByNodeToSQL getArrayValuesFromConfig nodeConfig previousNodeName =
       Inr (if groupingColumns \<noteq> [] \<and> aggregations = []
            then ''SELECT DISTINCT\<newline>  '' @ join '',\<newline>  '' (map quote_ident groupingColumns) @
                 ''\<newline>FROM '' @ quote_ident (default_input previousNodeName) @ '';''
            else if groupingColumns \<noteq> [] \<and> aggregations \<noteq> []
            then ''SELECT\<newline>  '' @
                 join '',\<newline>  '' (map quote_ident groupingColumns @ aggregations) @
                 ''\<newline>FROM '' @ quote_ident (default_input previousNodeName) @
                 ''\<newline>GROUP BY\<newline>  '' @ join '',\<newline>  '' (map quote_ident groupingColumns) @
                 '';''
            else if aggregations \<noteq> []
            then ''SELECT\<newline>  '' @ join '',\<newline>  '' aggregations @
                 ''\<newline>FROM '' @ quote_ident (default_input previousNodeName) @ '';''
            else ''Error: Cannot generate SELECT clause. No grouping or aggregation columns specified/successful.'')) \<and>
    (findConfigByKey (cfg_config nodeConfig) ''model'' = None \<or>
     (findConfigByKey (cfg_config nodeConfig) ''model'' = Some modelNode \<and>
      (\<not> present (cfg_config modelNode) \<or> \<not> present (cfg_entry modelNode))) \<longrightarrow>
     convertGroupByNodeToSQL getArrayValuesFromConfig nodeConfig previousNodeName =
       Inr ''Error: Model configuration not found or invalid.'') \<and>
    is_diagnostic ''Error: Cannot generate SELECT clause. No grouping or aggregation columns specified/successful.'' \<and>
    is_diagnostic ''Error: Model configuration not found or invalid.''"
proof (intro conjI impI)
  assume a: "findConfigByKey (cfg_config nodeConfig) ''model'' = Some modelNode \<and>
     present (cfg_config modelNode) \<and> present (cfg_entry modelNode) \<and>
     groupingColumns = gb_grouping_columns getArrayValuesFromConfig modelNode \<and>
     gb_model_aggregations getArrayValuesFromConfig modelNode = Inr aggregations"
  then have "convertGroupByNodeToSQL getArrayValuesFromConfig nodeConfig previousNodeName =
          Inr (gb_query groupingColumns aggregations (default_input previousNodeName))"
    using groupby_model_found [OF assms, of modelNode getArrayValuesFromConfig aggregations]
    by simp
  then show "convertGroupByNodeToSQL getArrayValuesFromConfig nodeConfig previousNodeName =
       Inr (if groupingColumns \<noteq> [] \<and> aggregations = []
            then ''SELECT DISTINCT\<newline>  '' @ join '',\<newline>  '' (map quote_ident groupingColumns) @
                 ''\<newline>FROM '' @ quote_ident (default_input previousNodeName) @ '';''
            else if groupingColumns \<noteq> [] \<and> aggregations \<noteq> []
            then ''SELECT\<newline>  '' @
                 join '',\<newline>  '' (map quote_ident groupingColumns @ aggregations) @
                 ''\<newline>FROM '' @ quote_ident (default_input previousNodeName) @
                 ''\<newline>GROUP BY\<newline>  '' @ join '',\<newline>  '' (map quote_ident groupingColumns) @
                 '';''
            else if aggregations \<noteq> []
            then ''SELECT\<newline>  '' @ join '',\<newline>  '' aggregations @
                 ''\<newline>FROM '' @ quote_ident (default_input previousNodeName) @ '';''
            else ''Error: Cannot generate SELECT clause. No grouping or aggregation columns specified/successful.'')"
    by (simp only: gb_query_shape)
next
  assume "findConfigByKey (cfg_config nodeConfig) ''model'' = None \<or>
     (findConfigByKey (cfg_config nodeConfig) ''model'' = Some modelNode \<and>
      (\<not> present (cfg_config modelNode) \<or> \<not> present (cfg_entry modelNode)))"
  then show "convertGroupByNodeToSQL getArrayValuesFromConfig nodeConfig previousNodeName =
       Inr ''Error: Model configuration not found or invalid.''"
    by (rule groupby_model_missing [OF assms])
qed (simp_all add: is_diagnostic_def starts_with_def)

theorem groupby_shape_witness:
  "convertGroupByNodeToSQL getArrayValuesFromConfig_spec
       (example_groupby [''region''] [] [] []) (Some ''t'')
     = Inr ''SELECT DISTINCT\<newline>  \"region\"\<newline>FROM \"t\";'' \<and>
   convertGroupByNodeToSQL getArrayValuesFromConfig_spec
       (example_groupby [''region''] [''sales''] [''Sum''] []) (Some ''t'')
     = Inr ''SELECT\<newline>  \"region\",\<newline>  SUM(\"sales\") AS \"Sum_sales\"\<newline>FROM \"t\"\<newline>GROUP BY\<newline>  \"region\";'' \<and>
   convertGroupByNodeToSQL getArrayValuesFromConfig_spec
       (example_groupby [] [''sales''] [''Sum''] []) (Some ''t'')
     = Inr ''SELECT\<newline>  SUM(\"sales\") AS \"Sum_sales\"\<newline>FROM \"t\";'' \<and>
   convertGroupByNodeToSQL getArrayValuesFromConfig_spec
       (example_groupby [] [''sales''] [''Median''] []) (Some ''t'')
     = Inr ''Error: Cannot generate SELECT clause. No grouping or aggregation columns specified/successful.'' \<and>
   convertGroupByNodeToSQL getArrayValuesFromConfig_spec
       (Config None (Single (xml_entry ''factory'' ''xstring'' GROUPBY_FACTORY)) Absent) None
     = Inr ''Error: Model configuration not found or invalid.''"
proof -
  let ?g = getArrayValuesFromConfig_spec
  have shape: "convertGroupByNodeToSQL ?g (example_groupby gs cs ms []) (Some ''t'') = Inr r"
    if f: "getEntryValue (cfg_entry (example_groupby gs cs ms [])) ''factory'' = JStr GROUPBY_FACTORY"
    and m: "findConfigByKey (cfg_config (example_groupby gs cs ms [])) ''model'' = Some m"
    and p: "present (cfg_config m)" "present (cfg_entry m)"
    and g: "gb_grouping_columns ?g m = gs"
    and a: "gb_model_aggregations ?g m = Inr as"
    and r: "(if gs \<noteq> [] \<and> as = []
            then ''SELECT DISTINCT\<newline>  '' @ join '',\<newline>  '' (map quote_ident gs) @
                 ''\<newline>FROM '' @ quote_ident (default_input (Some ''t'')) @ '';''
            else if gs \<noteq> [] \<and> as \<noteq> []
            then ''SELECT\<newline>  '' @
                 join '',\<newline>  '' (map quote_ident gs @ as) @
                 ''\<newline>FROM '' @ quote_ident (default_input (Some ''t'')) @
                 ''\<newline>GROUP BY\<newline>  '' @ join '',\<newline>  '' (map quote_ident gs) @
                 '';''
            else if as \<noteq> []
            then ''SELECT\<newline>  '' @ join '',\<newline>  '' as @
                 ''\<newline>FROM '' @ quote_ident (default_input (Some ''t'')) @ '';''
            else ''Error: Cannot generate SELECT clause. No grouping or aggregation columns specified/successful.'') = r"
    for gs cs ms m as r
    using groupby_shape [OF f, where modelNode = m and groupingColumns = gs
        and getArrayValuesFromConfig = ?g and aggregations = as and previousNodeName = "Some ''t''"]
      m p g a r
    by blast
  let ?model = "\<lambda>gs cs ms. xml_config ''model''
                (Many [xml_entry ''columnNamePolicy'' ''xstring'' ''Aggregation method (column name)''])
                (Many [xml_config ''grouByColumns'' Absent
                         (Many [example_array ''InclList'' gs,
                                example_array ''ExclList'' []]),
                       xml_config ''aggregationColumn'' Absent
                         (Many [example_array ''columnNames'' cs,
                                example_array ''aggregationMethod'' ms])])"
  have 1: "convertGroupByNodeToSQL ?g (example_groupby [''region''] [] [] []) (Some ''t'')
     = Inr ''SELECT DISTINCT\<newline>  \"region\"\<newline>FROM \"t\";''"
    by (rule shape [where m = "?model [''region''] [] []" and as = "[]"]) code_simp+
  have 2: "convertGroupByNodeToSQL ?g (example_groupby [''region''] [''sales''] [''Sum''] []) (Some ''t'')
     = Inr ''SELECT\<newline>  \"region\",\<newline>  SUM(\"sales\") AS \"Sum_sales\"\<newline>FROM \"t\"\<newline>GROUP BY\<newline>  \"region\";''"
    by (rule shape [where m = "?model [''region''] [''sales''] [''Sum'']"
          and as = "[''SUM(\"sales\") AS \"Sum_sales\"'']"]) code_simp+
  have 3: "convertGroupByNodeToSQL ?g (example_groupby [] [''sales''] [''Sum''] []) (Some ''t'')
     = Inr ''SELECT\<newline>  SUM(\"sales\") AS \"Sum_sales\"\<newline>FROM \"t\";''"
    by (rule shape [where m = "?model [] [''sales''] [''Sum'']"
          and as = "[''SUM(\"sales\") AS \"Sum_sales\"'']"]) code_simp+
  have 4: "convertGroupByNodeToSQL ?g (example_groupby [] [''sales''] [''Median''] []) (Some ''t'')
     = Inr ''Error: Cannot generate SELECT clause. No grouping or aggregation columns specified/successful.''"
    by (rule shape [where m = "?model [] [''sales''] [''Median'']" and as = "[]"]) code_simp+
  let ?bare = "Config None (Single (xml_entry ''factory'' ''xstring'' GROUPBY_FACTORY)) Absent"
  have fb: "getEntryValue (cfg_entry ?bare) ''factory'' = JStr GROUPBY_FACTORY" by code_simp
  have mb: "findConfigByKey (cfg_config ?bare) ''model'' = None" by code_simp
  from groupby_shape [OF fb, where getArrayValuesFromConfig = ?g and previousNodeName = None] mb
  have 5: "convertGroupByNodeToSQL ?g ?bare None
     = Inr ''Error: Model configuration not found or invalid.''"
    by blast
  from 1 2 3 4 5 show ?thesis by blast
qed

section \<open>Properties of the Concatenate translator\<close>

lemma set_foldl_set_add: "set (foldl set_add acc xs) = set acc \<union> set xs"
  by (induction xs arbitrary: acc) (auto simp: set_add_def)

lemma distinct_foldl_set_add: "distinct acc \<Longrightarrow> distinct (foldl set_add acc xs)"
  by (induction xs arbitrary: acc) (auto simp: set_add_def)

lemma set_pred_columns: "set (pred_columns p) = exposed_columns p"
  by (simp add: pred_columns_def new_Set_def set_foldl_set_add exposed_columns_def split: option.split)

lemma distinct_pred_columns: "distinct (pred_columns p)"
  by (simp add: pred_columns_def new_Set_def distinct_foldl_set_add)

lemma set_foldl_filter:
  "set (foldl (\<lambda>intersection s. filter (\<lambda>col. col \<in> set s) intersection) first rest)
     = set first \<inter> (\<Inter>s \<in> set rest. set s)"
  by (induction rest arbitrary: first) auto

lemma distinct_foldl_filter:
  "distinct first \<Longrightarrow>
   distinct (foldl (\<lambda>intersection s. filter (\<lambda>col. col \<in> set s) intersection) first rest)"
  by (induction rest arbitrary: first) auto

lemma set_foldl_union:
  "set (foldl (\<lambda>unionSet colSet. foldl set_add unionSet colSet) acc ss)
     = set acc \<union> (\<Union>s \<in> set ss. set s)"
  by (induction ss arbitrary: acc) (auto simp: set_foldl_set_add)

lemma distinct_foldl_union:
  "distinct acc \<Longrightarrow> distinct (foldl (\<lambda>unionSet colSet. foldl set_add unionSet colSet) acc ss)"
  by (induction ss arbitrary: acc) (auto simp: distinct_foldl_set_add)

lemma set_output_columns:
  assumes "preds \<noteq> []"
  shows "set (output_columns intersectionOfColumns preds) =
           (if intersectionOfColumns then (\<Inter>p \<in> set preds. exposed_columns p)
            else (\<Union>p \<in> set preds. exposed_columns p))"
proof (cases preds)
  case Nil
  with assms show ?thesis by simp
next
  case (Cons p ps)
  then show ?thesis
    by (simp add: output_columns_def intersect_columns_def union_columns_def
          set_foldl_filter set_foldl_union set_foldl_set_add set_pred_columns)
qed

lemma distinct_output_columns: "distinct (output_columns intersectionOfColumns preds)"
proof (cases preds)
  case Nil
  then show ?thesis
    by (simp add: output_columns_def intersect_columns_def union_columns_def)
next
  case (Cons p ps)
  then show ?thesis
    by (simp add: output_columns_def intersect_columns_def union_columns_def Let_def
          distinct_foldl_filter distinct_foldl_union distinct_foldl_set_add
          distinct_pred_columns)
qed

lemma first_invalid_None: "first_invalid i preds = None \<longleftrightarrow> list_all valid_context preds"
  by (induction preds arbitrary: i) auto

lemma select_list_items:
  "select_list finalOutputColumns p =
     map (\<lambda>col. if col \<in> exposed_columns p
                then quote_ident (nodeName p) @ ''.'' @ quote_ident col
                else ''NULL AS '' @ quote_ident col) finalOutputColumns"
  by (simp add: select_list_def select_item_def set_pred_columns)

lemma concatenate_result:
  assumes "getEntryValue (cfg_entry nodeConfig) ''factory'' = JStr CONCATENATE_FACTORY"
      and "2 \<le> length preds"
      and "list_all valid_context preds"
  shows "convertConcatenateNodeToSQL stringify stringify_pred nodeConfig (Contexts preds) =
     (let intersectionOfColumns =
            (getEntryValue (config_source nodeConfig) ''intersection_of_columns'' = JBool True);
          finalOutputColumns = final_columns intersectionOfColumns preds
      in Inr (if finalOutputColumns = []
              then (if intersectionOfColumns
                    then ''Error: Intersection of columns resulted in an empty column set.''
                    else ''Error: No columns determined for the output.'')
              else trim (concat_comment intersectionOfColumns
                           (getEntryValue (config_source nodeConfig) ''fail_on_duplicates'')
                           (getEntryValue (config_source nodeConfig) ''append_suffix'') @
                         join ''\<newline>UNION ALL\<newline>''
                           (map (select_statement finalOutputColumns) preds)) @ '';''))"
proof -
  have fi: "first_invalid 0 preds = None" using assms(3) by (simp add: first_invalid_None)
  have len: "\<not> length preds < 2" using assms(2) by simp
  have e: "final_columns b preds = [] \<longleftrightarrow> output_columns b preds = []" for b
    using length_sort [of "\<lambda>x. x" "output_columns b preds"]
    by (auto simp: final_columns_def simp del: length_sort)
  show ?thesis
    by (simp add: convertConcatenateNodeToSQL_def assms(1) fi len Let_def e)
qed


text \<open>
  Claim C8: for a Concatenate translation with at least two valid predecessor contexts,
  the final output columns are, as a set, the intersection (intersection mode) or the
  union (union mode) of the predecessors' columns, and they are sorted without
  repetition; every predecessor's select list takes the columns it has from the
  predecessor and \<open>NULL AS <column>\<close> for the others; an empty intersection is a
  diagnostic; otherwise the output is the comment, the SELECT statements joined by
  \<open>UNION ALL\<close>, and \<open>;\<close>.
\<close>

theorem concatenate_columns:
  assumes "getEntryValue (cfg_entry nodeConfig) ''factory'' = JStr CONCATENATE_FACTORY"
      and "2 \<le> length preds"
      and "list_all valid_context preds"
      and "intersectionOfColumns =
             (getEntryValue (config_source nodeConfig) ''intersection_of_columns'' = JBool True)"
      and "finalOutputColumns = final_columns intersectionOfColumns preds"
  shows "set finalOutputColumns =
           (if intersectionOfColumns then (\<Inter>p \<in> set preds. exposed_columns p)
            else (\<Union>p \<in> set preds. exposed_columns p)) \<and>
         sorted finalOutputColumns \<and> distinct finalOutputColumns \<and>
         (\<forall>p \<in> set preds.
            select_list finalOutputColumns p =
              map (\<lambda>col. if col \<in> exposed_columns p
                         then quote_ident (nodeName p) @ ''.'' @ quote_ident col
                         else ''NULL AS '' @ quote_ident col) finalOutputColumns) \<and>
         convertConcatenateNodeToSQL stringify stringify_pred nodeConfig (Contexts preds) =
           Inr (if finalOutputColumns = []
                then (if intersectionOfColumns
                      then ''Error: Intersection of columns resulted in an empty column set.''
                      else ''Error: No columns determined for the output.'')
                else trim (concat_comment intersectionOfColumns
                             (getEntryValue (config_source nodeConfig) ''fail_on_duplicates'')
                             (getEntryValue (config_source nodeConfig) ''append_suffix'') @
                           join ''\<newline>UNION ALL\<newline>''
                             (map (\<lambda>p. ''SELECT\<newline>    '' @
                                       join '',\<newline>    '' (select_list finalOutputColumns p) @
                                       ''\<newline>  FROM '' @ quote_ident (nodeName p)) preds)) @
                     '';'')"
proof -
  have ne: "preds \<noteq> []" using assms(2) by auto
  have 1: "set finalOutputColumns =
           (if intersectionOfColumns then (\<Inter>p \<in> set preds. exposed_columns p)
            else (\<Union>p \<in> set preds. exposed_columns p))"
    unfolding assms(5) final_columns_def
    using set_output_columns [OF ne, of intersectionOfColumns] by simp
  have 2: "sorted finalOutputColumns"
    unfolding assms(5) final_columns_def by simp
  have 3: "distinct finalOutputColumns"
    unfolding assms(5) final_columns_def by (simp add: distinct_output_columns)
  have 4: "convertConcatenateNodeToSQL stringify stringify_pred nodeConfig (Contexts preds) =
           Inr (if finalOutputColumns = []
                then (if intersectionOfColumns
                      then ''Error: Intersection of columns resulted in an empty column set.''
                      else ''Error: No columns determined for the output.'')
                else trim (concat_comment intersectionOfColumns
                             (getEntryValue (config_source nodeConfig) ''fail_on_duplicates'')
                             (getEntryValue (config_source nodeConfig) ''append_suffix'') @
                           join ''\<newline>UNION ALL\<newline>''
                             (map (\<lambda>p. ''SELECT\<newline>    '' @
                                       join '',\<newline>    '' (select_list finalOutputColumns p) @
                                       ''\<newline>  FROM '' @ quote_ident (nodeName p)) preds)) @
                     '';'')"
    using concatenate_result [OF assms(1,2,3), of stringify stringify_pred]
    by (simp add: Let_def assms(4,5) select_statement_def [abs_def])
  from 1 2 3 4 show ?thesis by (simp add: select_list_items)
qed

theorem concatenate_columns_witness:
  "set [''a'', ''b'', ''c''] = (\<Union>p \<in> set example_predecessors. exposed_columns p) \<and>
   select_list [''a'', ''b'', ''c''] (PredContext ''left'' (Some [''a'', ''b'']))
     = [''\"left\".\"a\"'', ''\"left\".\"b\"'', ''NULL AS \"c\"''] \<and>
   convertConcatenateNodeToSQL (\<lambda>c. []) (\<lambda>p. []) (example_concatenate ''false'')
       (Contexts example_predecessors)
     = Inr (''-- Concatenate Node Conversion (using UNION ALL)\<newline>-- Mode: Union of columns (default)\<newline>SELECT\<newline>    \"left\".\"a\",\<newline>    \"left\".\"b\",\<newline>    NULL AS \"c\"\<newline>  FROM \"left\"\<newline>UNION ALL\<newline>SELECT\<newline>    NULL AS \"a\",\<newline>    \"right\".\"b\",\<newline>    \"right\".\"c\"\<newline>  FROM \"right\";'')"
proof -
  let ?cfg = "example_concatenate ''false''"
  let ?left = "PredContext ''left'' (Some [''a'', ''b''])"
  have f: "getEntryValue (cfg_entry ?cfg) ''factory'' = JStr CONCATENATE_FACTORY" by code_simp
  have l: "2 \<le> length example_predecessors" by code_simp
  have v: "list_all valid_context example_predecessors" by code_simp
  have i: "False = (getEntryValue (config_source ?cfg) ''intersection_of_columns'' = JBool True)"
    by code_simp
  have c: "[''a'', ''b'', ''c''] = final_columns False example_predecessors" by code_simp
  have m: "?left \<in> set example_predecessors" by (simp add: example_predecessors_def)
  note t = concatenate_columns [OF f l v i c, of "\<lambda>c. []" "\<lambda>p. []"]
  from t have 1: "set [''a'', ''b'', ''c''] = (\<Union>p \<in> set example_predecessors. exposed_columns p)"
    by simp
  from t m have "select_list [''a'', ''b'', ''c''] ?left =
      map (\<lambda>col. if col \<in> exposed_columns ?left
                 then quote_ident (nodeName ?left) @ ''.'' @ quote_ident col
                 else ''NULL AS '' @ quote_ident col) [''a'', ''b'', ''c'']"
    by blast
  then have 2: "select_list [''a'', ''b'', ''c''] ?left
     = [''\"left\".\"a\"'', ''\"left\".\"b\"'', ''NULL AS \"c\"'']"
    by (simp add: exposed_columns_def quote_ident_def)
  have r: "trim (concat_comment False
                   (getEntryValue (config_source ?cfg) ''fail_on_duplicates'')
                   (getEntryValue (config_source ?cfg) ''append_suffix'') @
                 join ''\<newline>UNION ALL\<newline>''
                   (map (\<lambda>p. ''SELECT\<newline>    '' @
                             join '',\<newline>    '' (select_list [''a'', ''b'', ''c''] p) @
                             ''\<newline>  FROM '' @ quote_ident (nodeName p)) example_predecessors)) @
           '';''
         = ''-- Concatenate Node Conversion (using UNION ALL)\<newline>-- Mode: Union of columns (default)\<newline>SELECT\<newline>    \"left\".\"a\",\<newline>    \"left\".\"b\",\<newline>    NULL AS \"c\"\<newline>  FROM \"left\"\<newline>UNION ALL\<newline>SELECT\<newline>    NULL AS \"a\",\<newline>    \"right\".\"b\",\<newline>    \"right\".\"c\"\<newline>  FROM \"right\";''"
    by code_simp
  from t have 3: "convertConcatenateNodeToSQL (\<lambda>c. []) (\<lambda>p. []) ?cfg (Contexts example_predecessors)
     = Inr (''-- Concatenate Node Conversion (using UNION ALL)\<newline>-- Mode: Union of columns (default)\<newline>SELECT\<newline>    \"left\".\"a\",\<newline>    \"left\".\"b\",\<newline>    NULL AS \"c\"\<newline>  FROM \"left\"\<newline>UNION ALL\<newline>SELECT\<newline>    NULL AS \"a\",\<newline>    \"right\".\"b\",\<newline>    \"right\".\"c\"\<newline>  FROM \"right\";'')"
    unfolding r [symmetric] by simp
  from 1 2 3 show ?thesis by blast
qed

section \<open>Properties of the graph builder\<close>

lemma collect_records_iff: "r \<in> set (collect_records xs) \<longleftrightarrow> Inr r \<in> set xs"
  by (induction xs rule: collect_records.induct) auto

lemma make_node_fields:
  assumes "make_node parse_settings parseIntTen key_of nodeIds connections item = Inr r"
  shows "parse_settings (snd item) = Inr (node_config r) \<and>
         node_id r = node_id_of parseIntTen (node_folder (fst item)) \<and>
         node_order r = (case node_id r of
                           None \<Rightarrow> None
                         | Some i \<Rightarrow> nodeOrderMap key_of nodeIds (key_of i)) \<and>
         next_nodes r = (case node_id r of
                           None \<Rightarrow> []
                         | Some i \<Rightarrow>
                             (case nextNodeMap key_of connections (key_of i) of
                                None \<Rightarrow> []
                              | Some ds \<Rightarrow> ds))"
  using assms
  by (auto simp: make_node_def Let_def split: sum.splits)

lemma make_node_total:
  assumes "parse_settings (snd item) = Inr cfg"
      and "list_all (\<lambda>e. entry_attributes e \<noteq> None) (as_array (opt_entry cfg))"
  shows "\<exists>r. make_node parse_settings parseIntTen key_of nodeIds connections item = Inr r"
proof -
  from viewer_getEntryValue_total [OF assms(2)]
  obtain a b c d where
    "viewer_getEntryValue cfg ''name'' = Inr a"
    "viewer_getEntryValue cfg ''factory'' = Inr b"
    "viewer_getEntryValue cfg ''state'' = Inr c"
    "viewer_getEntryValue cfg ''customDescription'' = Inr d"
    by metis
  then show ?thesis by (simp add: make_node_def Let_def assms(1))
qed

lemma dom_foldl_update:
  "dom (foldl (\<lambda>m (index, nid). m(key_of nid \<mapsto> index)) m0 ps) = dom m0 \<union> (key_of \<circ> snd) ` set ps"
  by (induction ps arbitrary: m0) auto

lemma dom_nodeOrderMap: "dom (nodeOrderMap key_of nodeIds) = key_of ` set nodeIds"
proof -
  have "snd ` set (zip [0..<length nodeIds] nodeIds) = set nodeIds"
    by (metis length_upt map_snd_zip minus_nat.diff_0 set_map)
  then have "(key_of \<circ> snd) ` set (zip [0..<length nodeIds] nodeIds) = key_of ` set nodeIds"
    by (metis image_comp)
  then show ?thesis by (simp add: nodeOrderMap_def dom_foldl_update)
qed

lemma nodeOrderMap_None:
  "nodeOrderMap key_of nodeIds k = None \<longleftrightarrow> k \<notin> key_of ` set nodeIds"
  by (metis dom_nodeOrderMap domIff)

text \<open>
  Claim C4, as stated, has a record for every node of the descriptor or of the settings
  documents. The records are built from the settings documents alone: with the nodes 5
  and 3 in the descriptor and settings documents for node 3 and for a folder without id,
  there is no record for node 5.
\<close>

theorem descriptor_only_node_counterexample:
  "List.find (\<lambda>f. last_part (fst f) = ''workflow.knime'') example_files
     = Some (''wf/workflow.knime'', WorkflowXml [5, 3] [(5, 3)]) \<and>
   map node_id
     (handleUpload_nodeData example_descriptor example_settings digits_value show_nat
        (Some example_files)) = [Some 3, None] \<and>
   Some 5 \<notin> set [Some 3, None :: nat option]"
  by code_simp

text \<open>
  Claim C4, amended: when the archive cannot be loaded, has no file \<open>workflow.knime\<close>, or
  that file cannot be decoded, no record is emitted. Otherwise every settings document
  of the archive that is decoded and whose entries all have attributes gets a record with
  its configuration and the id read from its folder name, whether or not the descriptor
  lists that id; every record comes from a settings document; its order is "N/A" exactly
  when it has no id or the key of its id is not the key of a declared node, and its
  successors are those of the connections (none without an id).
\<close>

theorem settings_documents_emitted:
  "(zipContent = None \<or>
    (zipContent = Some allFiles \<and>
     (List.find (\<lambda>f. last_part (fst f) = ''workflow.knime'') allFiles = None \<or>
      (List.find (\<lambda>f. last_part (fst f) = ''workflow.knime'') allFiles = Some knimeFile \<and>
       parse_descriptor (snd knimeFile) = Inl e))) \<longrightarrow>
    handleUpload_nodeData parse_descriptor parse_settings parseIntTen key_of zipContent = []) \<and>
   (List.find (\<lambda>f. last_part (fst f) = ''workflow.knime'') allFiles = Some knimeFile \<and>
    parse_descriptor (snd knimeFile) = Inr (nodeIds, connections) \<longrightarrow>
    (item \<in> set allFiles \<and> is_settings_path (fst item) \<and>
     parse_settings (snd item) = Inr jsonObj_config \<and>
     list_all (\<lambda>e. entry_attributes e \<noteq> None) (as_array (opt_entry jsonObj_config)) \<longrightarrow>
     (\<exists>r \<in> set (handleUpload_nodeData parse_descriptor parse_settings parseIntTen key_of
                    (Some allFiles)).
        node_config r = jsonObj_config \<and>
        node_id r = map_option parseIntTen (match_id (node_folder (fst item))))) \<and>
    (r \<in> set (handleUpload_nodeData parse_descriptor parse_settings parseIntTen key_of
                 (Some allFiles)) \<longrightarrow>
     (\<exists>item \<in> set allFiles. is_settings_path (fst item) \<and>
        parse_settings (snd item) = Inr (node_config r) \<and>
        node_id r = map_option parseIntTen (match_id (node_folder (fst item)))) \<and>
     (node_order r = None \<longleftrightarrow>
        (\<forall>i. node_id r = Some i \<longrightarrow> key_of i \<notin> key_of ` set nodeIds)) \<and>
     next_nodes r = (case node_id r of
                       None \<Rightarrow> []
                     | Some i \<Rightarrow>
                         (case nextNodeMap key_of connections (key_of i) of
                            None \<Rightarrow> []
                          | Some ds \<Rightarrow> ds))))"
proof -
  let ?data = "handleUpload_nodeData parse_descriptor parse_settings parseIntTen key_of"
  have none: "zipContent = None \<or>
    (zipContent = Some allFiles \<and>
     (List.find (\<lambda>f. last_part (fst f) = ''workflow.knime'') allFiles = None \<or>
      (List.find (\<lambda>f. last_part (fst f) = ''workflow.knime'') allFiles = Some knimeFile \<and>
       parse_descriptor (snd knimeFile) = Inl e))) \<longrightarrow> ?data zipContent = []"
    by (auto simp: handleUpload_nodeData_def)
  have some: "(item \<in> set allFiles \<and> is_settings_path (fst item) \<and>
     parse_settings (snd item) = Inr jsonObj_config \<and>
     list_all (\<lambda>e. entry_attributes e \<noteq> None) (as_array (opt_entry jsonObj_config)) \<longrightarrow>
     (\<exists>r \<in> set (?data (Some allFiles)).
        node_config r = jsonObj_config \<and>
        node_id r = map_option parseIntTen (match_id (node_folder (fst item))))) \<and>
    (r \<in> set (?data (Some allFiles)) \<longrightarrow>
     (\<exists>item \<in> set allFiles. is_settings_path (fst item) \<and>
        parse_settings (snd item) = Inr (node_config r) \<and>
        node_id r = map_option parseIntTen (match_id (node_folder (fst item)))) \<and>
     (node_order r = None \<longleftrightarrow>
        (\<forall>i. node_id r = Some i \<longrightarrow> key_of i \<notin> key_of ` set nodeIds)) \<and>
     next_nodes r = (case node_id r of
                       None \<Rightarrow> []
                     | Some i \<Rightarrow>
                         (case nextNodeMap key_of connections (key_of i) of
                            None \<Rightarrow> []
                          | Some ds \<Rightarrow> ds)))"
    if d: "List.find (\<lambda>f. last_part (fst f) = ''workflow.knime'') allFiles = Some knimeFile"
          "parse_descriptor (snd knimeFile) = Inr (nodeIds, connections)"
  proof (intro conjI impI)
    have h: "?data (Some allFiles) =
           collect_records
             (map (make_node parse_settings parseIntTen key_of nodeIds connections)
                (filter (\<lambda>f. is_settings_path (fst f)) allFiles))"
      by (simp add: handleUpload_nodeData_def d)
    assume a: "item \<in> set allFiles \<and> is_settings_path (fst item) \<and>
     parse_settings (snd item) = Inr jsonObj_config \<and>
     list_all (\<lambda>e. entry_attributes e \<noteq> None) (as_array (opt_entry jsonObj_config))"
    then obtain r where r: "make_node parse_settings parseIntTen key_of nodeIds connections item = Inr r"
      using make_node_total by blast
    with a have "r \<in> set (?data (Some allFiles))"
      unfolding h by (force simp: collect_records_iff)
    moreover from make_node_fields [OF r] a have "node_config r = jsonObj_config"
      "node_id r = map_option parseIntTen (match_id (node_folder (fst item)))"
      by (simp_all add: node_id_of_def)
    ultimately show "\<exists>r \<in> set (?data (Some allFiles)).
        node_config r = jsonObj_config \<and>
        node_id r = map_option parseIntTen (match_id (node_folder (fst item)))"
      by blast
  next
    have h: "?data (Some allFiles) =
           collect_records
             (map (make_node parse_settings parseIntTen key_of nodeIds connections)
                (filter (\<lambda>f. is_settings_path (fst f)) allFiles))"
      by (simp add: handleUpload_nodeData_def d)
    assume "r \<in> set (?data (Some allFiles))"
    then obtain item where i: "item \<in> set allFiles" "is_settings_path (fst item)"
      and m: "make_node parse_settings parseIntTen key_of nodeIds connections item = Inr r"
      unfolding h by (auto simp: collect_records_iff)
    note f = make_node_fields [OF m]
    from i f show "\<exists>item \<in> set allFiles. is_settings_path (fst item) \<and>
        parse_settings (snd item) = Inr (node_config r) \<and>
        node_id r = map_option parseIntTen (match_id (node_folder (fst item)))"
      unfolding node_id_of_def by blast
    from f have o: "node_order r =
        (case node_id r of None \<Rightarrow> None | Some i \<Rightarrow> nodeOrderMap key_of nodeIds (key_of i))"
      by blast
    show "node_order r = None \<longleftrightarrow>
        (\<forall>i. node_id r = Some i \<longrightarrow> key_of i \<notin> key_of ` set nodeIds)"
      by (cases "node_id r") (simp_all add: o nodeOrderMap_None)
    from f show "next_nodes r = (case node_id r of
                       None \<Rightarrow> []
                     | Some i \<Rightarrow>
                         (case nextNodeMap key_of connections (key_of i) of
                            None \<Rightarrow> []
                          | Some ds \<Rightarrow> ds))"
      by blast
  qed
  from none some show ?thesis by blast
qed

theorem settings_documents_emitted_witness:
  "(\<exists>r \<in> set (handleUpload_nodeData example_descriptor example_settings digits_value show_nat
                 (Some example_files)).
      node_config r = Some example_unknown_node \<and> node_id r = Some 3) \<and>
   handleUpload_nodeData example_descriptor example_settings digits_value show_nat
     (Some [(''wf/Row Filter (#3)/settings.xml'', SettingsXml (Some example_unknown_node))]) = [] \<and>
   handleUpload_nodeData example_descriptor example_settings digits_value show_nat
     (Some [(''wf/workflow.knime'', Garbage),
            (''wf/Row Filter (#3)/settings.xml'', SettingsXml (Some example_unknown_node))]) = []"
proof -
  let ?item = "(''wf/Row Filter (#3)/settings.xml'', SettingsXml (Some example_unknown_node))"
  let ?wf = "(''wf/workflow.knime'', WorkflowXml [5, 3] [(5, 3)])"
  have 0: "List.find (\<lambda>f. last_part (fst f) = ''workflow.knime'') example_files = Some ?wf"
    by code_simp
  have d0: "example_descriptor (snd ?wf) = Inr ([5, 3], [(5, 3)])" by simp
  have 1: "?item \<in> set example_files" by (simp add: example_files_def)
  have 2: "is_settings_path (fst ?item)" by code_simp
  have 3: "example_settings (snd ?item) = Inr (Some example_unknown_node)" by simp
  have 4: "list_all (\<lambda>e. entry_attributes e \<noteq> None)
             (as_array (opt_entry (Some example_unknown_node)))"
    by code_simp
  have 5: "map_option digits_value (match_id (node_folder (fst ?item))) = Some 3" by code_simp
  from settings_documents_emitted [where allFiles = example_files and knimeFile = ?wf
      and parse_descriptor = example_descriptor and parse_settings = example_settings
      and parseIntTen = digits_value and key_of = show_nat
      and nodeIds = "[5, 3]" and connections = "[(5, 3)]" and item = ?item
      and jsonObj_config = "Some example_unknown_node", THEN conjunct2] 0 d0 1 2 3 4
  have "\<exists>r \<in> set (handleUpload_nodeData example_descriptor example_settings digits_value show_nat
                 (Some example_files)).
      node_config r = Some example_unknown_node \<and>
      node_id r = map_option digits_value (match_id (node_folder (fst ?item)))"
    by blast
  then have a: "\<exists>r \<in> set (handleUpload_nodeData example_descriptor example_settings digits_value
                 show_nat (Some example_files)).
      node_config r = Some example_unknown_node \<and> node_id r = Some 3"
    unfolding 5 by simp
  have n: "List.find (\<lambda>f. last_part (fst f) = ''workflow.knime'') [?item] = None" by code_simp
  from settings_documents_emitted [where zipContent = "Some [?item]" and allFiles = "[?item]"
      and parse_descriptor = example_descriptor and parse_settings = example_settings
      and parseIntTen = digits_value and key_of = show_nat, THEN conjunct1] n
  have b: "handleUpload_nodeData example_descriptor example_settings digits_value show_nat
     (Some [?item]) = []"
    by blast
  let ?g = "(''wf/workflow.knime'', Garbage)"
  have g: "List.find (\<lambda>f. last_part (fst f) = ''workflow.knime'') [?g, ?item] = Some ?g"
    by code_simp
  have g0: "example_descriptor (snd ?g) = Inl TypeError" by simp
  from settings_documents_emitted [where zipContent = "Some [?g, ?item]" and allFiles = "[?g, ?item]"
      and knimeFile = ?g and e = TypeError
      and parse_descriptor = example_descriptor and parse_settings = example_settings
      and parseIntTen = digits_value and key_of = show_nat, THEN conjunct1] g g0
  have c: "handleUpload_nodeData example_descriptor example_settings digits_value show_nat
     (Some [?g, ?item]) = []"
    by blast
  from a b c show ?thesis by blast
qed

section \<open>Faults that leave a translator\<close>

text \<open>
  Claim C1 says that every translator returns a result for every settings tree and
  predecessor context. The accessor \<open>getEntryValue\<close> returns a boolean for an entry typed
  \<open>xboolean\<close>, and the translators call \<open>replace\<close> on what it returned: the Row Filter
  translator faults on a \<open>REGEX\<close> predicate whose value entry is typed \<open>xboolean\<close>, and
  on a call without predecessor name (where the Sorter translator falls back to
  \<open>input_table\<close>); the GroupBy translator faults on a \<open>List\<close> aggregation with a delimiter
  entry typed \<open>xboolean\<close>.
\<close>

theorem translator_fault:
  "convertRowFilterNodeToSQL
     (example_row_filter ''MATCHING'' ''AND''
        [example_predicate ''0'' ''flag'' ''REGEX''
           (example_value ''xboolean'' ''true'' ''org.knime.core.data.def.BooleanCell'' ''false'')])
     (Some ''t'') = Inl TypeError \<and>
   convertRowFilterNodeToSQL
     (example_row_filter ''MATCHING'' ''AND''
        [example_predicate ''0'' ''colA'' ''EQ''
           (example_value ''xstring'' ''5'' ''org.knime.core.data.def.IntCell'' ''false'')])
     None = Inl TypeError \<and>
   convertSorterNodeToSQL
     (example_sorter ''true'' (Single (example_criterion ''0'' ''age'' ''DESCENDING'' ''NATURAL'')))
     None
     = Inr ''SELECT *\<newline>FROM \"input_table\"\<newline>ORDER BY\<newline>  \"age\" DESC NULLS LAST;'' \<and>
   convertGroupByNodeToSQL getArrayValuesFromConfig_spec
     (example_groupby [''region''] [''name''] [''List'']
        [xml_entry ''valueDelimiter'' ''xboolean'' ''true''])
     (Some ''t'') = Inl TypeError"
  by code_simp

theorem translator_fault_witness:
  "\<exists>e. convertRowFilterNodeToSQL
     (example_row_filter ''MATCHING'' ''AND''
        [example_predicate ''0'' ''flag'' ''REGEX''
           (example_value ''xboolean'' ''true'' ''org.knime.core.data.def.BooleanCell'' ''false'')])
     (Some ''t'') = Inl e"
  using translator_fault by blast

end
